theory Spec2Isabelle
  imports Main
begin

section \<open>JavaScript values\<close>

text \<open>
  The store of \<^verbatim>\<open>src/lib/VerifiableCredentialStore.js\<close> works on untyped JavaScript
  values: queries, credentials, vault documents and thrown errors are all plain values.
  An object is a plain data object (its prototype is \<^verbatim>\<open>Object.prototype\<close>), given as
  the association list of its own properties; the first entry of a name is the
  property. A number is given by the text the language prints for it: \<open>Num ''404''\<close>
  is 404, \<open>Num ''0''\<close> is zero of either sign and \<open>Num ''NaN''\<close> is NaN. The source
  never computes with a number: it compares one with 404, tests numbers for truthiness
  and prints them. Functions are not values of this type; the one function-valued
  parameter of the source (\<^verbatim>\<open>engine\<close> of \<^verbatim>\<open>match\<close>) is a parameter of the model.
\<close>

datatype jsval =
    Undefined
  | Null
  | Bool bool
  | Num string
  | Str string
  | Arr "jsval list"
  | Obj "(string \<times> jsval) list"

text \<open>\<^verbatim>\<open>!v\<close> is \<open>\<not> truthy v\<close>.\<close>

fun truthy :: "jsval \<Rightarrow> bool" where
  "truthy Undefined = False"
| "truthy Null = False"
| "truthy (Bool b) = b"
| "truthy (Num n) = (n \<noteq> ''0'' \<and> n \<noteq> ''NaN'')"
| "truthy (Str s) = (s \<noteq> [])"
| "truthy (Arr xs) = True"
| "truthy (Obj kvs) = True"

fun typeof :: "jsval \<Rightarrow> string" where
  "typeof Undefined = ''undefined''"
| "typeof Null = ''object''"
| "typeof (Bool b) = ''boolean''"
| "typeof (Num n) = ''number''"
| "typeof (Str s) = ''string''"
| "typeof (Arr xs) = ''object''"
| "typeof (Obj kvs) = ''object''"

fun nullish :: "jsval \<Rightarrow> bool" where
  "nullish Undefined = True"
| "nullish Null = True"
| "nullish v = False"

text \<open>
  An error object made by \<^verbatim>\<open>new Error(msg)\<close> or \<^verbatim>\<open>new TypeError(msg)\<close>: reading its
  \<^verbatim>\<open>name\<close> gives the constructor's name unless the code assigns another one.
\<close>

definition new_Error :: "string \<Rightarrow> string \<Rightarrow> jsval" where
  "new_Error nm msg = Obj [(''name'', Str nm), (''message'', Str msg)]"

text \<open>
  The TypeError the language itself raises when a property of \<^verbatim>\<open>undefined\<close> or
  \<^verbatim>\<open>null\<close> is read or destructured, or when a value that is not iterable (not
  callable) is iterated (called). Its message is engine-specific; the model fixes one.
\<close>

definition engine_TypeError :: jsval where
  "engine_TypeError = new_Error ''TypeError'' ''Cannot read properties of undefined or null''"

text \<open>
  \<open>prop_of v k\<close> is the value of \<^verbatim>\<open>v.k\<close> for a base \<open>v\<close> that is neither
  \<^verbatim>\<open>undefined\<close> nor \<^verbatim>\<open>null\<close>: the own property of an object, and
  \<^verbatim>\<open>undefined\<close> on a primitive or an array (the source reads none of their built-in
  properties by name). \<open>get_prop\<close> is the read itself, which throws on a nullish base;
  destructuring \<^verbatim>\<open>const {k} = v\<close> behaves the same.
\<close>

fun prop_of :: "jsval \<Rightarrow> string \<Rightarrow> jsval" where
  "prop_of (Obj kvs) k = (case map_of kvs k of None \<Rightarrow> Undefined | Some v \<Rightarrow> v)"
| "prop_of v k = Undefined"

definition get_prop :: "jsval \<Rightarrow> string \<Rightarrow> jsval + jsval" where
  "get_prop v k = (if nullish v then Inl engine_TypeError else Inr (prop_of v k))"

text \<open>The \<^verbatim>\<open>name\<close> a caller reads off a thrown value.\<close>

definition error_name :: "jsval \<Rightarrow> jsval" where
  "error_name e = prop_of e ''name''"

section \<open>The credential validator: \<^verbatim>\<open>_getIssuer\<close>\<close>

text \<open>
  Lines 224-234. The parameter is destructured from \<^verbatim>\<open>{credential}\<close>; the issuer is
  read off the credential, tested for truthiness, then for its shape. A truthy value
  is never nullish, so reading \<^verbatim>\<open>issuer.id\<close> cannot throw there.
\<close>

definition getIssuer :: "jsval \<Rightarrow> jsval + jsval" where
  "getIssuer credential =
     (case get_prop credential ''issuer'' of
        Inl e \<Rightarrow> Inl e
      | Inr issuer \<Rightarrow>
          if \<not> truthy issuer then
            Inl (new_Error ''Error'' ''A verifiable credential MUST have an issuer property'')
          else if \<not> (typeof issuer = ''string'' \<or> typeof (prop_of issuer ''id'') = ''string'') then
            Inl (new_Error ''Error''
              (''The value of the issuer property MUST be either a URI'' @
               '' or an object containing an id property.''))
          else Inr (if typeof issuer = ''string'' then issuer else prop_of issuer ''id''))"

section \<open>Promises and the vault collaborator\<close>

text \<open>
  Every public method is an \<^verbatim>\<open>async\<close> function: a call returns a promise. A promise is
  modelled by the way it settles, \<open>Inl e\<close> (rejected with \<open>e\<close>) or \<open>Inr v\<close> (fulfilled
  with \<open>v\<close>), and by the step at which it settles. Steps only order events, and
  \<^verbatim>\<open>Promise.all\<close> is the one place of the source where the order matters. A promise
  of the collaborator has the step the collaborator gives it (see \<open>reply_time\<close>).
\<close>

datatype promise = Promise nat "jsval + jsval"

fun await :: "promise \<Rightarrow> jsval + jsval" where
  "await (Promise t r) = r"

fun settles_at :: "promise \<Rightarrow> nat" where
  "settles_at (Promise t r) = t"

text \<open>
  The encrypted vault (\<^verbatim>\<open>this.edvClient\<close>) is an external collaborator, so it is a
  parameter: each of its methods maps the call's argument object and the vault's state
  to a reply and a new state. A call either throws synchronously or returns a promise
  (a plain return value is a promise fulfilled at once).
\<close>

datatype reply = Throws jsval | Returns promise

record 's edv =
  edv_find :: "jsval \<Rightarrow> 's \<Rightarrow> reply \<times> 's"
  edv_insert :: "jsval \<Rightarrow> 's \<Rightarrow> reply \<times> 's"
  edv_delete :: "jsval \<Rightarrow> 's \<Rightarrow> reply \<times> 's"

text \<open>
  The instance fields set by the constructor (lines 17-19). Its two \<^verbatim>\<open>ensureIndex\<close>
  calls (lines 20-25) happen once, before any of the methods below is called.
\<close>

record 's store =
  edvClient :: "'s edv"
  invocationSigner :: jsval

text \<open>
  What a method call can change: the vault's state, and the sequence of calls made on
  the collaborator so far (kept to state which requests were sent, and in what order).
\<close>

datatype call = Find_call jsval | Insert_call jsval | Delete_call jsval

record 's world =
  vault :: 's
  calls :: "call list"

definition call_find :: "'s store \<Rightarrow> jsval \<Rightarrow> 's world \<Rightarrow> reply \<times> 's world" where
  "call_find st arg w =
     (case edv_find (edvClient st) arg (vault w) of
        (r, s') \<Rightarrow> (r, \<lparr>vault = s', calls = calls w @ [Find_call arg]\<rparr>))"

definition call_insert :: "'s store \<Rightarrow> jsval \<Rightarrow> 's world \<Rightarrow> reply \<times> 's world" where
  "call_insert st arg w =
     (case edv_insert (edvClient st) arg (vault w) of
        (r, s') \<Rightarrow> (r, \<lparr>vault = s', calls = calls w @ [Insert_call arg]\<rparr>))"

definition call_delete :: "'s store \<Rightarrow> jsval \<Rightarrow> 's world \<Rightarrow> reply \<times> 's world" where
  "call_delete st arg w =
     (case edv_delete (edvClient st) arg (vault w) of
        (r, s') \<Rightarrow> (r, \<lparr>vault = s', calls = calls w @ [Delete_call arg]\<rparr>))"

text \<open>
  \<^verbatim>\<open>await reply\<close> inside an async function: a synchronous throw and a rejection both
  surface as an exception at the \<^verbatim>\<open>await\<close>. \<open>reply_time\<close> is the step at which the
  collaborator has settled its reply: \<open>0\<close> for a synchronous throw and for a promise
  that is already settled when it is returned, a later step for a promise that the
  collaborator settles later. The function that awaits the reply goes on, and throws
  or returns, in that same step.
\<close>

fun await_reply :: "reply \<Rightarrow> jsval + jsval" where
  "await_reply (Throws e) = Inl e"
| "await_reply (Returns p) = await p"

fun reply_time :: "reply \<Rightarrow> nat" where
  "reply_time (Throws e) = 0"
| "reply_time (Returns p) = settles_at p"

text \<open>
  \<^verbatim>\<open>xs.map(f)\<close> with a callback that may throw: the first throw ends the call.
\<close>

fun map_throwing :: "('a \<Rightarrow> jsval + 'b) \<Rightarrow> 'a list \<Rightarrow> jsval + 'b list" where
  "map_throwing f [] = Inr []"
| "map_throwing f (x # xs) =
     (case f x of
        Inl e \<Rightarrow> Inl e
      | Inr y \<Rightarrow> (case map_throwing f xs of Inl e \<Rightarrow> Inl e | Inr ys \<Rightarrow> Inr (y # ys)))"

text \<open>\<^verbatim>\<open>Array.isArray(v) ? v : [v]\<close>, used for every scalar-or-array input.\<close>

fun as_list :: "jsval \<Rightarrow> jsval list" where
  "as_list (Arr xs) = xs"
| "as_list v = [v]"

section \<open>\<^verbatim>\<open>find\<close>\<close>

text \<open>
  Lines 59-88. \<open>entry_of\<close> is the body of the \<^verbatim>\<open>for\<close> loop: it destructures one
  filter spec (throwing on \<^verbatim>\<open>undefined\<close> or \<^verbatim>\<open>null\<close>) and builds the entry
  (\<open>make_entry\<close>), which gets each truthy field under its attribute path;
  \<open>build_equals\<close> is the loop, with \<^verbatim>\<open>equals\<close> as its accumulator; \<open>record_of\<close> is
  the callback of \<^verbatim>\<open>docs.map\<close>. The model's \<open>query\<close> is the \<^verbatim>\<open>query\<close> property of the
  options object (\<^verbatim>\<open>undefined\<close> when it is left out). The method is \<open>find_vc\<close> here,
  as \<^verbatim>\<open>insert\<close> is \<open>insert_vc\<close> below: the plain names are taken by the list and set
  libraries.
\<close>

definition make_entry :: "jsval \<Rightarrow> jsval \<Rightarrow> jsval \<Rightarrow> jsval" where
  "make_entry type issuer displayable =
     Obj ((if truthy type then [(''content.type'', type)] else []) @
          (if truthy issuer then [(''meta.issuer'', issuer)] else []) @
          (if truthy displayable then [(''meta.displayable'', displayable)] else []))"

definition entry_of :: "jsval \<Rightarrow> jsval + jsval" where
  "entry_of spec =
     (if nullish spec then Inl engine_TypeError
      else Inr (make_entry (prop_of spec ''type'') (prop_of spec ''issuer'')
                  (prop_of spec ''displayable'')))"

fun build_equals :: "jsval list \<Rightarrow> jsval list \<Rightarrow> jsval + jsval list" where
  "build_equals [] equals = Inr equals"
| "build_equals (spec # rest) equals =
     (case entry_of spec of
        Inl e \<Rightarrow> Inl e
      | Inr entry \<Rightarrow> build_equals rest (equals @ [entry]))"

definition record_of :: "jsval \<Rightarrow> jsval + jsval" where
  "record_of doc =
     (if nullish doc then Inl engine_TypeError
      else Inr (Obj [(''content'', prop_of doc ''content''),
                     (''meta'', prop_of doc ''meta''),
                     (''documentId'', prop_of doc ''id'')]))"

text \<open>
  Lines 80-87: the reply's \<^verbatim>\<open>documents\<close> is destructured and mapped; a value without a
  \<^verbatim>\<open>map\<close> method makes the call a TypeError.
\<close>

definition find_result :: "jsval \<Rightarrow> jsval + jsval" where
  "find_result res =
     (case get_prop res ''documents'' of
        Inl e \<Rightarrow> Inl e
      | Inr docs \<Rightarrow>
          (case docs of
             Arr ds \<Rightarrow>
               (case map_throwing record_of ds of Inl e \<Rightarrow> Inl e | Inr rs \<Rightarrow> Inr (Arr rs))
           | _ \<Rightarrow> Inl engine_TypeError))"

text \<open>The double quote that the messages of the source put around a name.\<close>

definition dquote :: string where
  "dquote = [CHR 0x22]"

definition find_request :: "'s store \<Rightarrow> jsval list \<Rightarrow> jsval" where
  "find_request st equals =
     Obj [(''equals'', Arr equals), (''invocationSigner'', invocationSigner st)]"

definition find_vc :: "'s store \<Rightarrow> jsval \<Rightarrow> 's world \<Rightarrow> promise \<times> 's world" where
  "find_vc st query w =
     (if \<not> truthy query then
        (Promise 0 (Inl (new_Error ''TypeError''
           (dquote @ ''query'' @ dquote @ '' is a required parameter.''))), w)
      else
        (case build_equals (as_list query) [] of
           Inl e \<Rightarrow> (Promise 0 (Inl e), w)
         | Inr equals \<Rightarrow>
             (case call_find st (find_request st equals) w of
                (r, w') \<Rightarrow>
                  (Promise (reply_time r)
                     (case await_reply r of Inl e \<Rightarrow> Inl e | Inr res \<Rightarrow> find_result res),
                   w'))))"

section \<open>\<^verbatim>\<open>_queryByExample\<close> and \<^verbatim>\<open>match\<close>\<close>

text \<open>
  Lines 191-199, the callback of \<^verbatim>\<open>trustedIssuers.map\<close>: the entry is destructured and
  its \<^verbatim>\<open>id\<close> tested for truthiness. The error is made by \<^verbatim>\<open>new Error\<close> and its
  \<^verbatim>\<open>name\<close> is then overwritten.
\<close>

definition not_supported_error :: jsval where
  "not_supported_error =
     new_Error ''NotSupportedError''
       (''trustedIssuer without an '' @ dquote @ ''id'' @ dquote @ '' is unsupported.'')"

definition issuer_id :: "jsval \<Rightarrow> jsval + jsval" where
  "issuer_id entry =
     (if nullish entry then Inl engine_TypeError
      else
        let id' = prop_of entry ''id''
        in if \<not> truthy id' then Inl not_supported_error else Inr id')"

text \<open>
  Lines 202-210, the two nested \<^verbatim>\<open>for\<close> loops that push onto \<^verbatim>\<open>query\<close>: \<open>push_issuers\<close>
  is the inner loop for one type, \<open>push_types\<close> the outer one with its
  \<^verbatim>\<open>issuers.length === 0\<close> branch.
\<close>

fun push_issuers :: "jsval \<Rightarrow> jsval list \<Rightarrow> jsval list \<Rightarrow> jsval list" where
  "push_issuers type [] query = query"
| "push_issuers type (issuer # rest) query =
     push_issuers type rest (query @ [Obj [(''type'', type), (''issuer'', issuer)]])"

fun push_types :: "jsval list \<Rightarrow> jsval list \<Rightarrow> jsval list \<Rightarrow> jsval list" where
  "push_types [] issuers query = query"
| "push_types (type # rest) issuers query =
     (if length issuers = 0 then push_types rest issuers (query @ [Obj [(''type'', type)]])
      else push_types rest issuers (push_issuers type issuers query))"

text \<open>
  Lines 179-210, \<^verbatim>\<open>_query\<close> up to its call of \<^verbatim>\<open>find\<close>: the clause is destructured
  (\<^verbatim>\<open>trustedIssuer\<close> defaults to \<^verbatim>\<open>[]\<close> when it is \<^verbatim>\<open>undefined\<close>), the type is read
  off the example, the issuer ids are collected and the criteria built.
\<close>

definition trusted_issuers :: "jsval \<Rightarrow> jsval list" where
  "trusted_issuers clause =
     as_list (case prop_of clause ''trustedIssuer'' of Undefined \<Rightarrow> Arr [] | v \<Rightarrow> v)"

definition criteria :: "jsval \<Rightarrow> jsval + jsval list" where
  "criteria clause =
     (if nullish clause then Inl engine_TypeError
      else
        (case get_prop (prop_of clause ''example'') ''type'' of
           Inl e \<Rightarrow> Inl e
         | Inr type \<Rightarrow>
             (case map_throwing issuer_id (trusted_issuers clause) of
                Inl e \<Rightarrow> Inl e
              | Inr issuers \<Rightarrow> Inr (push_types (as_list type) issuers []))))"

text \<open>
  \<^verbatim>\<open>_query\<close> is an async arrow function. A throw before \<^verbatim>\<open>find\<close> is called leaves a
  promise that is already rejected when \<^verbatim>\<open>Promise.all\<close> receives it: step \<open>0\<close>.
  Otherwise it returns the promise of \<^verbatim>\<open>find\<close>, which its own promise follows: it
  settles only after that one has, however early the collaborator replied, hence the
  \<open>Suc\<close>. \<^verbatim>\<open>find\<close> has called the collaborator by the time it returns its promise.
\<close>

definition query_clause :: "'s store \<Rightarrow> jsval \<Rightarrow> 's world \<Rightarrow> promise \<times> 's world" where
  "query_clause st clause w =
     (case criteria clause of
        Inl e \<Rightarrow> (Promise 0 (Inl e), w)
      | Inr query \<Rightarrow>
          (case find_vc st (Arr query) w of
             (p, w') \<Rightarrow> (Promise (Suc (settles_at p)) (await p), w')))"

text \<open>
  \<^verbatim>\<open>query.map(_query)\<close> (line 217) calls \<^verbatim>\<open>_query\<close> on every clause in turn, whatever the
  earlier calls returned: a rejected promise is a value, not an exception.
\<close>

fun map_query :: "'s store \<Rightarrow> jsval list \<Rightarrow> 's world \<Rightarrow> promise list \<times> 's world" where
  "map_query st [] w = ([], w)"
| "map_query st (clause # rest) w =
     (case query_clause st clause w of
        (p, w') \<Rightarrow> (case map_query st rest w' of (ps, w'') \<Rightarrow> (p # ps, w'')))"

text \<open>
  \<^verbatim>\<open>Promise.all\<close>: rejected with the reason of the rejected promise that settles first,
  fulfilled with all the values when none is rejected. Promises of the same step
  settle in the order of the calls that made them (the language runs the jobs of its
  queue in the order in which they were queued), so the leftmost one is first: the
  promises of clauses that failed validation among themselves (their rejections are
  handled in array order), and those of clauses whose collaborator call threw or
  returned a settled promise among themselves (their continuations are queued in call
  order).
\<close>

fun first_rejected :: "promise list \<Rightarrow> (nat \<times> jsval) option" where
  "first_rejected [] = None"
| "first_rejected (Promise t (Inr v) # ps) = first_rejected ps"
| "first_rejected (Promise t (Inl e) # ps) =
     (case first_rejected ps of
        None \<Rightarrow> Some (t, e)
      | Some (t', e') \<Rightarrow> if t' < t then Some (t', e') else Some (t, e))"

fun fulfilled_values :: "promise list \<Rightarrow> jsval list" where
  "fulfilled_values [] = []"
| "fulfilled_values (Promise t (Inr v) # ps) = v # fulfilled_values ps"
| "fulfilled_values (Promise t (Inl e) # ps) = fulfilled_values ps"

definition Promise_all :: "promise list \<Rightarrow> jsval + jsval list" where
  "Promise_all ps =
     (case first_rejected ps of
        Some (t, e) \<Rightarrow> Inl e
      | None \<Rightarrow> Inr (fulfilled_values ps))"

text \<open>Line 220, the callback of \<^verbatim>\<open>reduce\<close>: \<^verbatim>\<open>acc.concat(val)\<close> spreads an array.\<close>

definition concat_js :: "jsval list \<Rightarrow> jsval \<Rightarrow> jsval list" where
  "concat_js acc val = acc @ as_list val"

definition queryByExample :: "'s store \<Rightarrow> jsval \<Rightarrow> 's world \<Rightarrow> (jsval + jsval list) \<times> 's world" where
  "queryByExample st credentialQuery w =
     (if \<not> truthy credentialQuery then
        (Inl (new_Error ''Error''
           (dquote @ ''credentialQuery'' @ dquote @ '' is needed to execute a QueryByExample.'')), w)
      else if typeof credentialQuery \<noteq> ''object'' then
        (Inl (new_Error ''Error''
           (dquote @ ''credentialQuery'' @ dquote @ '' must be an object or an array.'')), w)
      else
        (case map_query st (as_list credentialQuery) w of
           (ps, w') \<Rightarrow>
             (case Promise_all ps of
                Inl e \<Rightarrow> (Inl e, w')
              | Inr requiredCredentials \<Rightarrow> (Inr (foldl concat_js [] requiredCredentials), w'))))"

text \<open>
  The text a template literal puts in for a value (line 107), or the TypeError the
  conversion throws. A primitive has its usual text. An array is converted by its
  \<^verbatim>\<open>join\<close>: the texts of its elements from left to right, with commas between them
  and nothing for \<^verbatim>\<open>undefined\<close> and \<^verbatim>\<open>null\<close>. A plain object is converted by the
  \<^verbatim>\<open>toString\<close> it inherits, unless it has an own property of that name: no value of
  this model is callable, so the conversion then finds nothing to call and throws.
\<close>

definition conversion_TypeError :: jsval where
  "conversion_TypeError = new_Error ''TypeError'' ''Cannot convert object to primitive value''"

fun to_string :: "jsval \<Rightarrow> jsval + string"
  and join_elements :: "jsval list \<Rightarrow> jsval + string" where
  "to_string Undefined = Inr ''undefined''"
| "to_string Null = Inr ''null''"
| "to_string (Bool b) = Inr (if b then ''true'' else ''false'')"
| "to_string (Num n) = Inr n"
| "to_string (Str s) = Inr s"
| "to_string (Arr xs) = join_elements xs"
| "to_string (Obj kvs) =
     (if map_of kvs ''toString'' \<noteq> None then Inl conversion_TypeError
      else Inr ''[object Object]'')"
| "join_elements [] = Inr []"
| "join_elements (x # xs) =
     (case (if nullish x then Inr [] else to_string x) of
        Inl e \<Rightarrow> Inl e
      | Inr s \<Rightarrow>
          if xs = [] then Inr s
          else (case join_elements xs of Inl e \<Rightarrow> Inl e | Inr t \<Rightarrow> Inr (s @ '','' @ t)))"

text \<open>
  Lines 99-110. \<open>query\<close> is the \<^verbatim>\<open>query\<close> property of the options object; \<open>engine\<close> is
  \<open>None\<close> when the caller leaves it out (the default is the identity). The callback of
  \<^verbatim>\<open>results.map\<close> is given the element only: an engine that looks at the index or the
  array it also receives is outside this model.
\<close>

definition match :: "'s store \<Rightarrow> jsval \<Rightarrow> (jsval \<Rightarrow> jsval + jsval) option \<Rightarrow> 's world
    \<Rightarrow> (jsval + jsval) \<times> 's world" where
  "match st query engine w =
     (case get_prop query ''type'' of
        Inl e \<Rightarrow> (Inl e, w)
      | Inr type \<Rightarrow>
          if type = Str ''QueryByExample'' then
            (case queryByExample st (prop_of query ''credentialQuery'') w of
               (Inl e, w') \<Rightarrow> (Inl e, w')
             | (Inr results, w') \<Rightarrow>
                 (case map_throwing (case engine of None \<Rightarrow> Inr | Some f \<Rightarrow> f) results of
                    Inl e \<Rightarrow> (Inl e, w')
                  | Inr rs \<Rightarrow> (Inr (Arr rs), w')))
          else
            (case to_string type of
               Inl e \<Rightarrow> (Inl e, w)
             | Inr text \<Rightarrow>
                 (Inl (new_Error ''Error''
                    (''Unsupported query type: '' @ dquote @ text @ dquote)), w)))"

section \<open>\<^verbatim>\<open>insert\<close>\<close>

text \<open>
  Lines 121-136. \<open>meta\<close> is the caller's object as its property list, \<open>None\<close> when it is
  left out (the default is \<^verbatim>\<open>{}\<close>); \<open>docId\<close> is \<^verbatim>\<open>undefined\<close> when left out. The
  validator runs first; the assignment \<^verbatim>\<open>meta.issuer = ...\<close> replaces the property or
  adds it.
\<close>

fun set_prop :: "(string \<times> jsval) list \<Rightarrow> string \<Rightarrow> jsval \<Rightarrow> (string \<times> jsval) list" where
  "set_prop [] k v = [(k, v)]"
| "set_prop ((k', v') # kvs) k v =
     (if k' = k then (k, v) # kvs else (k', v') # set_prop kvs k v)"

definition insert_request :: "'s store \<Rightarrow> jsval \<Rightarrow> (string \<times> jsval) list \<Rightarrow> jsval \<Rightarrow> jsval" where
  "insert_request st docId meta credential =
     Obj [(''doc'', Obj [(''id'', docId), (''meta'', Obj meta), (''content'', credential)]),
          (''invocationSigner'', invocationSigner st)]"

definition insert_vc :: "'s store \<Rightarrow> jsval \<Rightarrow> (string \<times> jsval) list option \<Rightarrow> jsval \<Rightarrow> 's world
    \<Rightarrow> (jsval + jsval) \<times> 's world" where
  "insert_vc st credential meta docId w =
     (case getIssuer credential of
        Inl e \<Rightarrow> (Inl e, w)
      | Inr issuer \<Rightarrow>
          (case call_insert st
                  (insert_request st docId
                     (set_prop (case meta of None \<Rightarrow> [] | Some m \<Rightarrow> m) ''issuer'' issuer)
                     credential) w of
             (r, w') \<Rightarrow>
               (case await_reply r of
                  Inl e \<Rightarrow> (Inl e, w')
                | Inr doc \<Rightarrow>
                    (case get_prop doc ''content'' of
                       Inl e \<Rightarrow> (Inl e, w')
                     | Inr content \<Rightarrow>
                         (Inr (Obj [(''content'', content), (''documentId'', prop_of doc ''id'')]),
                          w')))))"

section \<open>\<^verbatim>\<open>delete\<close>\<close>

text \<open>
  Lines 144-161. \<open>first_document\<close> is the destructuring \<^verbatim>\<open>{documents: [doc]}\<close> of the
  reply: the first element of the array, \<^verbatim>\<open>undefined\<close> for an empty one, a TypeError
  when \<^verbatim>\<open>documents\<close> cannot be iterated. \<open>delete_catch\<close> is the \<^verbatim>\<open>catch\<close> block, which
  reads \<^verbatim>\<open>e.response.status\<close> before it decides.
\<close>

definition first_document :: "jsval \<Rightarrow> jsval + jsval" where
  "first_document res =
     (case get_prop res ''documents'' of
        Inl e \<Rightarrow> Inl e
      | Inr docs \<Rightarrow>
          (case docs of
             Arr [] \<Rightarrow> Inr Undefined
           | Arr (doc # rest) \<Rightarrow> Inr doc
           | Str [] \<Rightarrow> Inr Undefined
           | Str (c # rest) \<Rightarrow> Inr (Str [c])
           | _ \<Rightarrow> Inl engine_TypeError))"

definition delete_catch :: "jsval \<Rightarrow> jsval + jsval" where
  "delete_catch e =
     (case get_prop e ''response'' of
        Inl t \<Rightarrow> Inl t
      | Inr response \<Rightarrow>
          (case get_prop response ''status'' of
             Inl t \<Rightarrow> Inl t
           | Inr status \<Rightarrow> if status = Num ''404'' then Inr (Bool False) else Inl e))"

definition lookup_request :: "'s store \<Rightarrow> jsval \<Rightarrow> jsval" where
  "lookup_request st id' =
     Obj [(''equals'', Obj [(''content.id'', id')]), (''invocationSigner'', invocationSigner st)]"

definition delete_request :: "'s store \<Rightarrow> jsval \<Rightarrow> jsval" where
  "delete_request st doc = Obj [(''doc'', doc), (''invocationSigner'', invocationSigner st)]"

text \<open>
  The lookup is awaited inside \<^verbatim>\<open>try\<close>, so whatever it throws reaches the handler. The
  collaborator's \<^verbatim>\<open>delete\<close> is returned without \<^verbatim>\<open>await\<close> (line 154): a synchronous
  throw of that call is caught, but the promise it returns has left the \<^verbatim>\<open>try\<close> block
  when it settles, so its rejection is the rejection of \<^verbatim>\<open>delete\<close> itself.
\<close>

definition delete :: "'s store \<Rightarrow> jsval \<Rightarrow> 's world \<Rightarrow> (jsval + jsval) \<times> 's world" where
  "delete st id' w =
     (case call_find st (lookup_request st id') w of
        (r, w') \<Rightarrow>
          (case await_reply r of
             Inl e \<Rightarrow> (delete_catch e, w')
           | Inr res \<Rightarrow>
               (case first_document res of
                  Inl e \<Rightarrow> (delete_catch e, w')
                | Inr doc \<Rightarrow>
                    if \<not> truthy doc then (Inr (Bool False), w')
                    else
                      (case call_delete st (delete_request st doc) w' of
                         (Throws e, w'') \<Rightarrow> (delete_catch e, w'')
                       | (Returns p, w'') \<Rightarrow> (await p, w'')))))"

section \<open>\<^verbatim>\<open>get\<close>\<close>

text \<open>
  Lines 33-50. The method's parameter list binds \<^verbatim>\<open>id\<close>, and line 44 declares
  \<^verbatim>\<open>id\<close> again with \<^verbatim>\<open>const\<close> at the top level of the same function body. The
  language forbids this statically (a name bound by the formal parameters may not
  occur among the lexically declared names of the body): the method is rejected with a
  SyntaxError when the source text is parsed, before any call. The two lists below are
  the names as the source writes them (\<^verbatim>\<open>err\<close> is declared inside the \<^verbatim>\<open>if\<close> block
  and is not a top-level name); \<open>redeclared\<close> is the static check.
\<close>

definition get_parameter_names :: "string list" where
  "get_parameter_names = [''id'']"

definition get_lexically_declared_names :: "string list" where
  "get_lexically_declared_names = [''invocationSigner'', ''doc'', ''content'', ''meta'', ''id'']"

definition redeclared :: "string list \<Rightarrow> string list \<Rightarrow> string list" where
  "redeclared params declared = filter (\<lambda>n. n \<in> set declared) params"

text \<open>
  What the body of \<^verbatim>\<open>get\<close> computes once the clash is taken away, with the \<^verbatim>\<open>id\<close> of
  line 48 read as the document's (the \<^verbatim>\<open>id\<close> of line 44) and the \<^verbatim>\<open>id\<close> of line 36 as
  the parameter. A truthy document is not nullish, so its destructuring cannot throw.
\<close>

definition not_found_error :: jsval where
  "not_found_error = new_Error ''NotFoundError'' ''Verifiable Credential not found.''"

definition get_body :: "'s store \<Rightarrow> jsval \<Rightarrow> 's world \<Rightarrow> (jsval + jsval) \<times> 's world" where
  "get_body st id' w =
     (case call_find st (lookup_request st id') w of
        (r, w') \<Rightarrow>
          (case await_reply r of
             Inl e \<Rightarrow> (Inl e, w')
           | Inr res \<Rightarrow>
               (case first_document res of
                  Inl e \<Rightarrow> (Inl e, w')
                | Inr doc \<Rightarrow>
                    if \<not> truthy doc then (Inl not_found_error, w')
                    else (record_of doc, w'))))"

section \<open>A scripted collaborator\<close>

text \<open>
  A stand-in for the vault with which the theorems below are run on concrete inputs:
  its state is the list of replies it still has to give, and every call, whatever its
  method and argument, takes the next one.
\<close>

definition scripted_call :: "jsval \<Rightarrow> reply list \<Rightarrow> reply \<times> reply list" where
  "scripted_call arg script =
     (case script of
        [] \<Rightarrow> (Returns (Promise 0 (Inr Undefined)), [])
      | r # rest \<Rightarrow> (r, rest))"

definition scripted :: "reply list edv" where
  "scripted = \<lparr>edv_find = scripted_call, edv_insert = scripted_call, edv_delete = scripted_call\<rparr>"

definition test_store :: "reply list store" where
  "test_store = \<lparr>edvClient = scripted, invocationSigner = Str ''signer''\<rparr>"

definition start :: "reply list \<Rightarrow> reply list world" where
  "start script = \<lparr>vault = script, calls = []\<rparr>"

definition documents :: "jsval list \<Rightarrow> reply" where
  "documents ds = Returns (Promise 1 (Inr (Obj [(''documents'', Arr ds)])))"

section \<open>Basic facts\<close>

lemma truthy_not_nullish: "truthy v \<Longrightarrow> \<not> nullish v"
  by (cases v) simp_all

lemma typeof_string_iff: "typeof v = ''string'' \<longleftrightarrow> (\<exists>s. v = Str s)"
  by (cases v) simp_all

lemma get_prop_not_nullish: "\<not> nullish v \<Longrightarrow> get_prop v k = Inr (prop_of v k)"
  by (simp add: get_prop_def)

lemma get_prop_nullish: "nullish v \<Longrightarrow> get_prop v k = Inl engine_TypeError"
  by (simp add: get_prop_def)

lemma error_name_new_Error: "error_name (new_Error nm msg) = Str nm"
  by (simp add: error_name_def new_Error_def)

lemma map_of_set_prop_same: "map_of (set_prop kvs k v) k = Some v"
  by (induction kvs) auto

lemma map_of_set_prop_other: "k' \<noteq> k \<Longrightarrow> map_of (set_prop kvs k v) k' = map_of kvs k'"
  by (induction kvs) auto

text \<open>A callback that never throws on the elements of the array makes \<^verbatim>\<open>map\<close> a map.\<close>

lemma map_throwing_total:
  "\<forall>x\<in>set xs. f x = Inr (g x) \<Longrightarrow> map_throwing f xs = Inr (map g xs)"
  by (induction xs) simp_all

lemma map_throwing_fails:
  "\<exists>x\<in>set xs. \<exists>e. f x = Inl e \<Longrightarrow> \<exists>e. map_throwing f xs = Inl e"
proof (induction xs)
  case Nil
  then show ?case by simp
next
  case (Cons a xs)
  show ?case
  proof (cases "f a")
    case (Inl e)
    then show ?thesis by simp
  next
    case (Inr y)
    with Cons.prems have "\<exists>x\<in>set xs. \<exists>e. f x = Inl e"
      by auto
    then obtain e where "map_throwing f xs = Inl e"
      using Cons.IH by blast
    with Inr show ?thesis by simp
  qed
qed

text \<open>The loop of \<^verbatim>\<open>find\<close> appends one entry per filter spec, in order.\<close>

lemma build_equals_map:
  "\<forall>s\<in>set specs. \<not> nullish s \<Longrightarrow>
   build_equals specs acc =
     Inr (acc @ map (\<lambda>s. make_entry (prop_of s ''type'') (prop_of s ''issuer'')
                          (prop_of s ''displayable'')) specs)"
  by (induction specs arbitrary: acc) (simp_all add: entry_of_def)

lemma make_entry_filter:
  "make_entry t i d =
     Obj (filter (\<lambda>(k, v). truthy v)
       [(''content.type'', t), (''meta.issuer'', i), (''meta.displayable'', d)])"
  by (simp add: make_entry_def)

text \<open>The two normalizations of \<^verbatim>\<open>trustedIssuer\<close> (default, then array), in one.\<close>

lemma normalized_entries:
  "as_list (case v of Undefined \<Rightarrow> Arr [] | x \<Rightarrow> x) =
     (case v of Undefined \<Rightarrow> [] | Arr es \<Rightarrow> es | _ \<Rightarrow> [v])"
  by (cases v) simp_all

text \<open>The nested loops of \<^verbatim>\<open>_query\<close> append the criteria type by type.\<close>

lemma push_issuers_append:
  "push_issuers t ids acc = acc @ map (\<lambda>i. Obj [(''type'', t), (''issuer'', i)]) ids"
  by (induction ids arbitrary: acc) simp_all

lemma push_types_no_issuers:
  "push_types ts [] acc = acc @ map (\<lambda>t. Obj [(''type'', t)]) ts"
  by (induction ts arbitrary: acc) simp_all

lemma push_types_issuers:
  "ids \<noteq> [] \<Longrightarrow>
   push_types ts ids acc =
     acc @ map (\<lambda>(t, i). Obj [(''type'', t), (''issuer'', i)]) (List.product ts ids)"
  by (induction ts arbitrary: acc) (simp_all add: push_issuers_append comp_def)

lemma push_types_append:
  "push_types ts ids acc =
     acc @ (if ids = [] then map (\<lambda>t. Obj [(''type'', t)]) ts
            else map (\<lambda>(t, i). Obj [(''type'', t), (''issuer'', i)]) (List.product ts ids))"
  by (simp add: push_types_no_issuers push_types_issuers)

lemma issuer_ids_valid:
  "\<forall>e\<in>set es. \<not> nullish e \<and> truthy (prop_of e ''id'') \<Longrightarrow>
   map_throwing issuer_id es = Inr (map (\<lambda>e. prop_of e ''id'') es)"
  by (intro map_throwing_total) (simp add: issuer_id_def)

lemma criteria_not_nullish:
  assumes "criteria c = Inr q"
  shows "\<forall>x\<in>set q. \<not> nullish x"
proof -
  from assms obtain ts ids where "q = push_types ts ids []"
    by (auto simp: criteria_def split: if_splits sum.splits)
  then show ?thesis
    by (auto simp: push_types_append)
qed

lemma query_clause_rejected:
  "criteria c = Inl e \<Longrightarrow> query_clause st c w = (Promise 0 (Inl e), w)"
  by (simp add: query_clause_def)

lemma query_clause_sent:
  assumes "criteria c = Inr q"
  shows "\<exists>t r s'. query_clause st c w =
           (Promise (Suc t) r,
            \<lparr>vault = s',
             calls = calls w @ [Find_call (find_request st
               (map (\<lambda>s. make_entry (prop_of s ''type'') (prop_of s ''issuer'')
                            (prop_of s ''displayable'')) q))]\<rparr>)"
  using assms criteria_not_nullish [OF assms]
  by (simp add: query_clause_def find_vc_def build_equals_map call_find_def split: prod.splits)

lemma map_query_calls:
  "calls (snd (map_query st cs w)) =
     calls w @ concat (map (\<lambda>c. case criteria c of
         Inl e \<Rightarrow> []
       | Inr q \<Rightarrow> [Find_call (find_request st
           (map (\<lambda>s. make_entry (prop_of s ''type'') (prop_of s ''issuer'')
                        (prop_of s ''displayable'')) q))]) cs)"
proof (induction cs arbitrary: w)
  case Nil
  then show ?case by simp
next
  case (Cons c cs)
  show ?case
  proof (cases "criteria c")
    case (Inl e)
    then show ?thesis
      using Cons.IH [of w] by (simp add: query_clause_rejected split_def)
  next
    case (Inr q)
    from query_clause_sent [OF Inr, of st w] obtain t r s' where
      qc: "query_clause st c w =
           (Promise (Suc t) r,
            \<lparr>vault = s',
             calls = calls w @ [Find_call (find_request st
               (map (\<lambda>s. make_entry (prop_of s ''type'') (prop_of s ''issuer'')
                            (prop_of s ''displayable'')) q))]\<rparr>)"
      by blast
    show ?thesis
      using Cons.IH [of "\<lparr>vault = s',
             calls = calls w @ [Find_call (find_request st
               (map (\<lambda>s. make_entry (prop_of s ''type'') (prop_of s ''issuer'')
                            (prop_of s ''displayable'')) q))]\<rparr>"] Inr qc
      by (simp add: split_def)
  qed
qed

lemma first_rejected_at_once:
  "first_rejected ps = Some (0, e) \<Longrightarrow> first_rejected (Promise (Suc t) r # ps) = Some (0, e)"
  by (cases r) simp_all

lemma first_rejected_head:
  "first_rejected (Promise 0 (Inl e) # ps) = Some (0, e)"
  by (simp split: option.splits)

lemma map_query_first_rejected:
  assumes "i < length cs" and "criteria (cs ! i) = Inl e"
    and "\<forall>j<i. \<exists>q. criteria (cs ! j) = Inr q"
  shows "first_rejected (fst (map_query st cs w)) = Some (0, e)"
  using assms
proof (induction cs arbitrary: i w)
  case Nil
  then show ?case by simp
next
  case (Cons c cs)
  show ?case
  proof (cases i)
    case 0
    with Cons.prems have "criteria c = Inl e" by simp
    then show ?thesis
      by (simp add: query_clause_rejected first_rejected_head split_def del: first_rejected.simps)
  next
    case (Suc k)
    with Cons.prems have k: "k < length cs" "criteria (cs ! k) = Inl e"
      by simp_all
    from Suc Cons.prems(3) have earlier: "\<forall>j<k. \<exists>q. criteria (cs ! j) = Inr q"
      by (metis Suc_less_eq nth_Cons_Suc)
    from Suc Cons.prems(3) obtain q where q: "criteria c = Inr q"
      by (metis nth_Cons_0 zero_less_Suc)
    from query_clause_sent [OF q, of st w] obtain t r w' where
      qc: "query_clause st c w = (Promise (Suc t) r, w')"
      by blast
    have "first_rejected (fst (map_query st cs w')) = Some (0, e)"
      using Cons.IH [OF k earlier] .
    then show ?thesis
      using qc by (simp add: first_rejected_at_once split_def del: first_rejected.simps)
  qed
qed

lemma issuer_ids_offending:
  assumes "\<forall>g\<in>set good. \<not> nullish g \<and> truthy (prop_of g ''id'')"
    and "\<not> nullish bad" and "\<not> truthy (prop_of bad ''id'')"
  shows "map_throwing issuer_id (good @ bad # rest) = Inl not_supported_error"
  using assms by (induction good) (simp_all add: issuer_id_def)

lemma criteria_offending:
  assumes "\<not> nullish c" and "\<not> nullish (prop_of c ''example'')"
    and "trusted_issuers c = good @ bad # rest"
    and "\<forall>g\<in>set good. \<not> nullish g \<and> truthy (prop_of g ''id'')"
    and "\<not> nullish bad" and "\<not> truthy (prop_of bad ''id'')"
  shows "criteria c = Inl not_supported_error"
  using assms by (simp add: criteria_def get_prop_not_nullish issuer_ids_offending)

text \<open>
  The order in which \<^verbatim>\<open>Promise.all\<close> sees rejections, on two clauses that both pass
  validation. When both collaborator calls fail at once, one by returning a rejected
  promise and one by throwing, the first clause's error is reported, whichever way
  round; when the first call's promise is rejected only later, the second clause's
  error is.
\<close>

lemma match_rejection_order:
  "fst (match test_store
     (Obj [(''type'', Str ''QueryByExample''),
           (''credentialQuery'', Arr [Obj [(''example'', Obj [(''type'', Str ''A'')])],
                                     Obj [(''example'', Obj [(''type'', Str ''B'')])]])])
     None (start [Returns (Promise 0 (Inl (Str ''first''))), Throws (Str ''second'')])) =
     Inl (Str ''first'')
   \<and> fst (match test_store
     (Obj [(''type'', Str ''QueryByExample''),
           (''credentialQuery'', Arr [Obj [(''example'', Obj [(''type'', Str ''A'')])],
                                     Obj [(''example'', Obj [(''type'', Str ''B'')])]])])
     None (start [Throws (Str ''first''), Returns (Promise 0 (Inl (Str ''second'')))])) =
     Inl (Str ''first'')
   \<and> fst (match test_store
     (Obj [(''type'', Str ''QueryByExample''),
           (''credentialQuery'', Arr [Obj [(''example'', Obj [(''type'', Str ''A'')])],
                                     Obj [(''example'', Obj [(''type'', Str ''B'')])]])])
     None (start [Returns (Promise 1 (Inl (Str ''first''))), Throws (Str ''second'')])) =
     Inl (Str ''second'')"
  by (simp add: match_def get_prop_def queryByExample_def query_clause_def criteria_def
      trusted_issuers_def find_vc_def entry_of_def make_entry_def call_find_def
      Promise_all_def test_store_def scripted_def scripted_call_def start_def)

section \<open>C1: the criteria of a clause\<close>

text \<open>
  C1, amended. Take a clause that is an object with an example. Its type is
  normalized to \<open>types\<close> (an array as it is, anything else as a one-element array)
  and its \<^verbatim>\<open>trustedIssuer\<close> to \<open>entries\<close> (absent: the empty array; an array: as it
  is; anything else: a one-element array). When every entry has a truthy \<^verbatim>\<open>id\<close>, the
  criteria built by \<^verbatim>\<open>_query\<close> are one \<^verbatim>\<open>{type}\<close> per type if there is no entry, and
  otherwise one \<^verbatim>\<open>{type, issuer}\<close> per pair of the cross-product of the types and the
  entries' ids, type by type and issuer by issuer. When some entry has no truthy
  \<^verbatim>\<open>id\<close>, no criterion is built: the call throws. The witness has the spec's two
  examples (types A, B with issuers x, y give (A,x), (A,y), (B,x), (B,y), which
  \<^verbatim>\<open>match\<close> sends as four equality clauses of one request; a scalar type with no
  trusted issuer gives the single \<^verbatim>\<open>{type}\<close>) and a trusted issuer that is not an
  array.
\<close>

theorem criteria_cross_product:
  assumes "\<not> nullish clause" and "example = prop_of clause ''example''"
    and "\<not> nullish example"
    and "type = prop_of example ''type''"
    and "types = (case type of Arr ts \<Rightarrow> ts | _ \<Rightarrow> [type])"
    and "trustedIssuer = prop_of clause ''trustedIssuer''"
    and "entries =
           (case trustedIssuer of Undefined \<Rightarrow> [] | Arr es \<Rightarrow> es | _ \<Rightarrow> [trustedIssuer])"
    and "issuers = map (\<lambda>e. prop_of e ''id'') entries"
  shows "((\<forall>e\<in>set entries. \<not> nullish e \<and> truthy (prop_of e ''id'')) \<longrightarrow>
            criteria clause =
              Inr (if entries = [] then map (\<lambda>t. Obj [(''type'', t)]) types
                   else map (\<lambda>(t, i). Obj [(''type'', t), (''issuer'', i)])
                          (List.product types issuers)))
       \<and> ((\<exists>e\<in>set entries. nullish e \<or> \<not> truthy (prop_of e ''id'')) \<longrightarrow>
            (\<exists>err. criteria clause = Inl err))"
proof -
  have ts: "as_list type = types"
    using assms(5) by (cases type) simp_all
  have es: "trusted_issuers clause = entries"
    unfolding assms(7) assms(6) by (simp add: trusted_issuers_def normalized_entries)
  have ok: "criteria clause =
              Inr (if entries = [] then map (\<lambda>t. Obj [(''type'', t)]) types
                   else map (\<lambda>(t, i). Obj [(''type'', t), (''issuer'', i)])
                          (List.product types issuers))"
    if "\<forall>e\<in>set entries. \<not> nullish e \<and> truthy (prop_of e ''id'')"
    using that assms(1-4,8) ts es
    by (simp add: criteria_def get_prop_not_nullish issuer_ids_valid push_types_append)
  have bad: "\<exists>err. criteria clause = Inl err"
    if "\<exists>e\<in>set entries. nullish e \<or> \<not> truthy (prop_of e ''id'')"
  proof -
    from that obtain e where e: "e \<in> set entries" "nullish e \<or> \<not> truthy (prop_of e ''id'')"
      by blast
    then have "\<exists>err. issuer_id e = Inl err"
      by (cases "nullish e") (simp_all add: issuer_id_def)
    with e(1) have "\<exists>e\<in>set entries. \<exists>err. issuer_id e = Inl err"
      by blast
    then have "\<exists>err. map_throwing issuer_id entries = Inl err"
      by (rule map_throwing_fails)
    then obtain err where "map_throwing issuer_id entries = Inl err" ..
    then show ?thesis
      using assms(1-4) es by (simp add: criteria_def get_prop_not_nullish)
  qed
  show ?thesis
    using ok bad by blast
qed

theorem criteria_cross_product_witness:
  "criteria (Obj [(''example'', Obj [(''type'', Arr [Str ''A'', Str ''B''])]),
                  (''trustedIssuer'', Arr [Obj [(''id'', Str ''x'')], Obj [(''id'', Str ''y'')]])]) =
     Inr [Obj [(''type'', Str ''A''), (''issuer'', Str ''x'')],
          Obj [(''type'', Str ''A''), (''issuer'', Str ''y'')],
          Obj [(''type'', Str ''B''), (''issuer'', Str ''x'')],
          Obj [(''type'', Str ''B''), (''issuer'', Str ''y'')]]
   \<and> criteria (Obj [(''example'', Obj [(''type'', Str ''A'')])]) = Inr [Obj [(''type'', Str ''A'')]]
   \<and> criteria (Obj [(''example'', Obj [(''type'', Str ''A'')]),
                    (''trustedIssuer'', Obj [(''id'', Str ''x'')])]) =
       Inr [Obj [(''type'', Str ''A''), (''issuer'', Str ''x'')]]
   \<and> calls (snd (match test_store
        (Obj [(''type'', Str ''QueryByExample''),
              (''credentialQuery'',
                 Obj [(''example'', Obj [(''type'', Arr [Str ''A'', Str ''B''])]),
                      (''trustedIssuer'',
                         Arr [Obj [(''id'', Str ''x'')], Obj [(''id'', Str ''y'')]])])])
        None (start [documents []]))) =
       [Find_call (find_request test_store
          [Obj [(''content.type'', Str ''A''), (''meta.issuer'', Str ''x'')],
           Obj [(''content.type'', Str ''A''), (''meta.issuer'', Str ''y'')],
           Obj [(''content.type'', Str ''B''), (''meta.issuer'', Str ''x'')],
           Obj [(''content.type'', Str ''B''), (''meta.issuer'', Str ''y'')]])]"
proof -
  have sent: "calls (snd (match test_store
        (Obj [(''type'', Str ''QueryByExample''),
              (''credentialQuery'',
                 Obj [(''example'', Obj [(''type'', Arr [Str ''A'', Str ''B''])]),
                      (''trustedIssuer'',
                         Arr [Obj [(''id'', Str ''x'')], Obj [(''id'', Str ''y'')]])])])
        None (start [documents []]))) =
       [Find_call (find_request test_store
          [Obj [(''content.type'', Str ''A''), (''meta.issuer'', Str ''x'')],
           Obj [(''content.type'', Str ''A''), (''meta.issuer'', Str ''y'')],
           Obj [(''content.type'', Str ''B''), (''meta.issuer'', Str ''x'')],
           Obj [(''content.type'', Str ''B''), (''meta.issuer'', Str ''y'')]])]"
    by (simp add: match_def get_prop_def queryByExample_def query_clause_def criteria_def
        trusted_issuers_def issuer_id_def find_vc_def entry_of_def make_entry_def call_find_def
        Promise_all_def test_store_def scripted_def scripted_call_def start_def documents_def
        find_result_def concat_js_def)
  show ?thesis
    using criteria_cross_product
      [of "Obj [(''example'', Obj [(''type'', Arr [Str ''A'', Str ''B''])]),
                (''trustedIssuer'', Arr [Obj [(''id'', Str ''x'')], Obj [(''id'', Str ''y'')]])]"
          "Obj [(''type'', Arr [Str ''A'', Str ''B''])]"
          "Arr [Str ''A'', Str ''B'']" "[Str ''A'', Str ''B'']"
          "Arr [Obj [(''id'', Str ''x'')], Obj [(''id'', Str ''y'')]]"
          "[Obj [(''id'', Str ''x'')], Obj [(''id'', Str ''y'')]]"
          "[Str ''x'', Str ''y'']"]
      criteria_cross_product
      [of "Obj [(''example'', Obj [(''type'', Str ''A'')])]" "Obj [(''type'', Str ''A'')]"
          "Str ''A''" "[Str ''A'']" Undefined "[]" "[]"]
      criteria_cross_product
      [of "Obj [(''example'', Obj [(''type'', Str ''A'')]),
                (''trustedIssuer'', Obj [(''id'', Str ''x'')])]"
          "Obj [(''type'', Str ''A'')]"
          "Str ''A''" "[Str ''A'']" "Obj [(''id'', Str ''x'')]" "[Obj [(''id'', Str ''x'')]]"
          "[Str ''x'']"]
      sent
    by simp
qed

text \<open>
  C1 as stated fails for a clause that does not pass validation: with the types A, B
  and the trusted issuers \<^verbatim>\<open>{id: "x"}\<close> and \<^verbatim>\<open>{id: ""}\<close> the issuer array is not empty,
  yet no criterion \<^verbatim>\<open>{type, issuer}\<close> is built for any pair: the empty \<^verbatim>\<open>id\<close> is
  falsy and the call throws the error named \<^verbatim>\<open>NotSupportedError\<close>.
\<close>

theorem criteria_cross_product_counterexample:
  "criteria (Obj [(''example'', Obj [(''type'', Arr [Str ''A'', Str ''B''])]),
                  (''trustedIssuer'', Arr [Obj [(''id'', Str ''x'')], Obj [(''id'', Str [])]])]) =
     Inl not_supported_error"
  by (simp add: criteria_def get_prop_def trusted_issuers_def issuer_id_def)

section \<open>C2: \<^verbatim>\<open>find\<close>\<close>

text \<open>
  C2, amended. For every call of \<^verbatim>\<open>find\<close>: if the query is absent or otherwise falsy
  the call fails with a \<^verbatim>\<open>TypeError\<close> saying that \<^verbatim>\<open>"query"\<close> is a required parameter,
  and the collaborator is not called. Otherwise, for the filter specs of the
  scalar-or-array query (none of them \<^verbatim>\<open>undefined\<close> or \<^verbatim>\<open>null\<close>), one equality clause
  is built per spec, in order, holding exactly those of \<^verbatim>\<open>type\<close>, \<^verbatim>\<open>issuer\<close> and
  \<^verbatim>\<open>displayable\<close> whose value in the spec is truthy, under \<^verbatim>\<open>content.type\<close>,
  \<^verbatim>\<open>meta.issuer\<close> and \<^verbatim>\<open>meta.displayable\<close>; all clauses go to the collaborator in one
  \<^verbatim>\<open>find\<close> request, the only call made; and when the collaborator answers with
  documents, each of them, in order and with repetitions kept, becomes a record
  \<^verbatim>\<open>{content, meta, documentId}\<close>.
\<close>

theorem find_vc_spec:
  assumes "specs = as_list query"
    and "equals = map (\<lambda>s. Obj (filter (\<lambda>(k, v). truthy v)
                   [(''content.type'', prop_of s ''type''),
                    (''meta.issuer'', prop_of s ''issuer''),
                    (''meta.displayable'', prop_of s ''displayable'')])) specs"
  shows "(\<not> truthy query \<longrightarrow>
            find_vc st query w =
              (Promise 0 (Inl (new_Error ''TypeError''
                 (dquote @ ''query'' @ dquote @ '' is a required parameter.''))), w))
       \<and> (truthy query \<and> (\<forall>s\<in>set specs. \<not> nullish s) \<longrightarrow>
            length equals = length specs
            \<and> calls (snd (find_vc st query w)) = calls w @ [Find_call (find_request st equals)]
            \<and> (\<forall>t res docs s'.
                  edv_find (edvClient st) (find_request st equals) (vault w) =
                    (Returns (Promise t (Inr res)), s')
                  \<and> prop_of res ''documents'' = Arr docs \<and> (\<forall>d\<in>set docs. \<not> nullish d) \<longrightarrow>
                  await (fst (find_vc st query w)) =
                    Inr (Arr (map (\<lambda>d. Obj [(''content'', prop_of d ''content''),
                                            (''meta'', prop_of d ''meta''),
                                            (''documentId'', prop_of d ''id'')]) docs))))"
proof -
  have eq: "equals = map (\<lambda>s. make_entry (prop_of s ''type'') (prop_of s ''issuer'')
                               (prop_of s ''displayable'')) (as_list query)"
    using assms by (simp only: make_entry_filter)
  have a: "find_vc st query w =
        (Promise 0 (Inl (new_Error ''TypeError''
           (dquote @ ''query'' @ dquote @ '' is a required parameter.''))), w)"
    if "\<not> truthy query"
    using that by (simp add: find_vc_def)
  have b: "calls (snd (find_vc st query w)) = calls w @ [Find_call (find_request st equals)]"
    if "truthy query" "\<forall>s\<in>set specs. \<not> nullish s"
    using that assms(1) eq by (simp add: find_vc_def build_equals_map call_find_def split_def)
  have c: "await (fst (find_vc st query w)) =
                Inr (Arr (map (\<lambda>d. Obj [(''content'', prop_of d ''content''),
                                        (''meta'', prop_of d ''meta''),
                                        (''documentId'', prop_of d ''id'')]) docs))"
    if "truthy query" "\<forall>s\<in>set specs. \<not> nullish s"
      "edv_find (edvClient st) (find_request st equals) (vault w) =
         (Returns (Promise t (Inr res)), s')"
      "prop_of res ''documents'' = Arr docs" "\<forall>d\<in>set docs. \<not> nullish d" for t res docs s'
  proof -
    have "\<not> nullish res"
      using that(4) by (cases res) simp_all
    moreover have "map_throwing record_of docs =
        Inr (map (\<lambda>d. Obj [(''content'', prop_of d ''content''),
                            (''meta'', prop_of d ''meta''),
                            (''documentId'', prop_of d ''id'')]) docs)"
      using that(5) by (intro map_throwing_total) (simp add: record_of_def)
    ultimately show ?thesis
      using that assms(1) eq
      by (simp add: find_vc_def build_equals_map call_find_def find_result_def
          get_prop_not_nullish)
  qed
  have d: "length equals = length specs"
    using assms(2) by simp
  show ?thesis
    using a b c d by blast
qed

theorem find_vc_spec_witness:
  "find_vc test_store Undefined (start []) =
     (Promise 0 (Inl (new_Error ''TypeError''
        (dquote @ ''query'' @ dquote @ '' is a required parameter.''))), start [])
   \<and> calls (snd (find_vc test_store
        (Arr [Obj [(''type'', Str ''A'')],
              Obj [(''issuer'', Str ''x''), (''displayable'', Bool True)]])
        (start [documents [Obj [(''id'', Str ''d1''), (''content'', Str ''c1''), (''meta'', Str ''m1'')],
                           Obj [(''id'', Str ''d1''), (''content'', Str ''c1''), (''meta'', Str ''m1'')]]]))) =
       [Find_call (find_request test_store
          [Obj [(''content.type'', Str ''A'')],
           Obj [(''meta.issuer'', Str ''x''), (''meta.displayable'', Bool True)]])]
   \<and> await (fst (find_vc test_store
        (Arr [Obj [(''type'', Str ''A'')],
              Obj [(''issuer'', Str ''x''), (''displayable'', Bool True)]])
        (start [documents [Obj [(''id'', Str ''d1''), (''content'', Str ''c1''), (''meta'', Str ''m1'')],
                           Obj [(''id'', Str ''d1''), (''content'', Str ''c1''), (''meta'', Str ''m1'')]]]))) =
       Inr (Arr [Obj [(''content'', Str ''c1''), (''meta'', Str ''m1''), (''documentId'', Str ''d1'')],
                 Obj [(''content'', Str ''c1''), (''meta'', Str ''m1''), (''documentId'', Str ''d1'')]])"
  using find_vc_spec [of "[Undefined]" Undefined "[Obj []]" test_store "start []"]
    find_vc_spec
      [of "[Obj [(''type'', Str ''A'')], Obj [(''issuer'', Str ''x''), (''displayable'', Bool True)]]"
          "Arr [Obj [(''type'', Str ''A'')], Obj [(''issuer'', Str ''x''), (''displayable'', Bool True)]]"
          "[Obj [(''content.type'', Str ''A'')],
            Obj [(''meta.issuer'', Str ''x''), (''meta.displayable'', Bool True)]]"
          test_store
          "start [documents [Obj [(''id'', Str ''d1''), (''content'', Str ''c1''), (''meta'', Str ''m1'')],
                             Obj [(''id'', Str ''d1''), (''content'', Str ''c1''), (''meta'', Str ''m1'')]]]"]
  by (simp add: test_store_def scripted_def scripted_call_def start_def documents_def
      find_request_def)

text \<open>
  C2 as stated fails twice. The error for an absent query is made by
  \<^verbatim>\<open>new TypeError\<close> (line 61): its name is \<^verbatim>\<open>TypeError\<close>, not \<^verbatim>\<open>ConfigurationError\<close>.
  And a field that is present in a filter spec is left out of the clause when its
  value is falsy: \<^verbatim>\<open>{displayable: false}\<close> gives the empty clause.
\<close>

theorem find_vc_counterexample:
  "await (fst (find_vc test_store Undefined (start []))) =
     Inl (new_Error ''TypeError'' (dquote @ ''query'' @ dquote @ '' is a required parameter.''))
   \<and> error_name
        (new_Error ''TypeError'' (dquote @ ''query'' @ dquote @ '' is a required parameter.''))
       \<noteq> Str ''ConfigurationError''
   \<and> calls (snd (find_vc test_store (Obj [(''displayable'', Bool False)]) (start []))) =
       [Find_call (find_request test_store [Obj []])]"
  by (simp add: find_vc_def entry_of_def make_entry_def call_find_def error_name_new_Error
      start_def split_def)

section \<open>C3: the issuer identifier\<close>

text \<open>
  C3, amended. For a credential that is an object, with \<open>issuer\<close> its
  \<^verbatim>\<open>issuer\<close> property: when the issuer is absent or falsy (\<^verbatim>\<open>undefined\<close>, \<^verbatim>\<open>null\<close>,
  \<^verbatim>\<open>false\<close>, \<^verbatim>\<open>0\<close> or the empty string) \<^verbatim>\<open>_getIssuer\<close> throws a generic \<^verbatim>\<open>Error\<close>
  (name \<^verbatim>\<open>Error\<close>) saying that a credential must have an issuer; when it is truthy but
  neither a string nor a value with a string \<^verbatim>\<open>id\<close> it throws a generic \<^verbatim>\<open>Error\<close>
  saying what shape the issuer must have; a non-empty string is returned as it is; and
  for any other truthy issuer with a string \<^verbatim>\<open>id\<close> that \<^verbatim>\<open>id\<close> is returned.
\<close>

theorem getIssuer_cases:
  assumes "\<not> nullish credential" and "issuer = prop_of credential ''issuer''"
  shows "(\<not> truthy issuer \<longrightarrow>
            getIssuer credential =
              Inl (new_Error ''Error'' ''A verifiable credential MUST have an issuer property''))
       \<and> (truthy issuer \<and> (\<forall>s. issuer \<noteq> Str s) \<and> (\<forall>i. prop_of issuer ''id'' \<noteq> Str i) \<longrightarrow>
            getIssuer credential =
              Inl (new_Error ''Error''
                ''The value of the issuer property MUST be either a URI or an object containing an id property.''))
       \<and> (\<forall>s. issuer = Str s \<and> s \<noteq> [] \<longrightarrow> getIssuer credential = Inr (Str s))
       \<and> (\<forall>i. truthy issuer \<and> (\<forall>s. issuer \<noteq> Str s) \<and> prop_of issuer ''id'' = Str i \<longrightarrow>
            getIssuer credential = Inr (Str i))"
  using assms
  by (simp add: getIssuer_def get_prop_not_nullish typeof_string_iff)

theorem getIssuer_cases_witness:
  "getIssuer (Obj [(''id'', Str ''urn:1'')]) =
     Inl (new_Error ''Error'' ''A verifiable credential MUST have an issuer property'')
   \<and> getIssuer (Obj [(''issuer'', Obj [(''name'', Str ''x'')])]) =
       Inl (new_Error ''Error''
         ''The value of the issuer property MUST be either a URI or an object containing an id property.'')
   \<and> getIssuer (Obj [(''issuer'', Str ''did:a'')]) = Inr (Str ''did:a'')
   \<and> getIssuer (Obj [(''issuer'', Obj [(''id'', Str ''did:x''), (''name'', Str ''x'')])]) =
       Inr (Str ''did:x'')"
  using getIssuer_cases [of "Obj [(''id'', Str ''urn:1'')]" Undefined]
    getIssuer_cases [of "Obj [(''issuer'', Obj [(''name'', Str ''x'')])]" "Obj [(''name'', Str ''x'')]"]
    getIssuer_cases [of "Obj [(''issuer'', Str ''did:a'')]" "Str ''did:a''"]
    getIssuer_cases [of "Obj [(''issuer'', Obj [(''id'', Str ''did:x''), (''name'', Str ''x'')])]"
      "Obj [(''id'', Str ''did:x''), (''name'', Str ''x'')]"]
  by simp

text \<open>
  C3 as stated fails twice. The errors are generic: the name a caller reads is
  \<^verbatim>\<open>Error\<close>, not \<^verbatim>\<open>ValidationError\<close>. And an issuer that is a string is not always
  returned: the empty string is falsy, so it is rejected as a missing issuer.
\<close>

theorem getIssuer_counterexample:
  "getIssuer (Obj [(''id'', Str ''urn:1'')]) =
     Inl (new_Error ''Error'' ''A verifiable credential MUST have an issuer property'')
   \<and> error_name (new_Error ''Error'' ''A verifiable credential MUST have an issuer property'')
       \<noteq> Str ''ValidationError''
   \<and> getIssuer (Obj [(''issuer'', Str [])]) \<noteq> Inr (Str [])
   \<and> getIssuer (Obj [(''issuer'', Str [])]) =
       Inl (new_Error ''Error'' ''A verifiable credential MUST have an issuer property'')"
  by (simp add: getIssuer_def get_prop_def error_name_def new_Error_def)

section \<open>C4: \<^verbatim>\<open>delete\<close>\<close>

text \<open>
  What holds of \<^verbatim>\<open>delete\<close>: when the lookup finds no document the result is
  \<^verbatim>\<open>false\<close> and only the lookup was sent, so two calls in a row on an absent id both
  give \<^verbatim>\<open>false\<close>; when it finds one, the collaborator's \<^verbatim>\<open>delete\<close> is called with it
  and its promise is the result; and an error of the lookup that carries
  \<^verbatim>\<open>response.status\<close> 404 becomes \<^verbatim>\<open>false\<close>.
\<close>

lemma delete_absent:
  assumes "call_find st (lookup_request st id') w = (r, w')"
    and "await_reply r = Inr res" and "prop_of res ''documents'' = Arr []"
  shows "delete st id' w = (Inr (Bool False), w')"
proof -
  have "\<not> nullish res"
    using assms(3) by (cases res) simp_all
  then show ?thesis
    using assms by (simp add: delete_def first_document_def get_prop_not_nullish)
qed

lemma delete_absent_twice:
  assumes "edv_find (edvClient st) (lookup_request st id') (vault w) = (r1, s1)"
    and "await_reply r1 = Inr res1" and "prop_of res1 ''documents'' = Arr []"
    and "edv_find (edvClient st) (lookup_request st id') s1 = (r2, s2)"
    and "await_reply r2 = Inr res2" and "prop_of res2 ''documents'' = Arr []"
  shows "fst (delete st id' w) = Inr (Bool False)
       \<and> fst (delete st id' (snd (delete st id' w))) = Inr (Bool False)
       \<and> calls (snd (delete st id' (snd (delete st id' w)))) =
           calls w @ [Find_call (lookup_request st id'), Find_call (lookup_request st id')]"
proof -
  let ?w1 = "\<lparr>vault = s1, calls = calls w @ [Find_call (lookup_request st id')]\<rparr>"
  let ?w2 = "\<lparr>vault = s2, calls = calls ?w1 @ [Find_call (lookup_request st id')]\<rparr>"
  have "call_find st (lookup_request st id') w = (r1, ?w1)"
    using assms(1) by (simp add: call_find_def)
  then have first: "delete st id' w = (Inr (Bool False), ?w1)"
    using assms(2,3) by (rule delete_absent)
  have "call_find st (lookup_request st id') ?w1 = (r2, ?w2)"
    using assms(4) by (simp add: call_find_def)
  then have "delete st id' ?w1 = (Inr (Bool False), ?w2)"
    using assms(5,6) by (rule delete_absent)
  with first show ?thesis by simp
qed

lemma delete_found:
  assumes "call_find st (lookup_request st id') w = (r, w')"
    and "await_reply r = Inr res" and "prop_of res ''documents'' = Arr (doc # others)"
    and "truthy doc"
    and "call_delete st (delete_request st doc) w' = (Returns p, w'')"
  shows "delete st id' w = (await p, w'')"
proof -
  have "\<not> nullish res"
    using assms(3) by (cases res) simp_all
  then show ?thesis
    using assms by (simp add: delete_def first_document_def get_prop_not_nullish)
qed

lemma delete_lookup_404:
  assumes "call_find st (lookup_request st id') w = (r, w')"
    and "await_reply r = Inl e" and "\<not> nullish e" and "\<not> nullish (prop_of e ''response'')"
    and "prop_of (prop_of e ''response'') ''status'' = Num ''404''"
  shows "delete st id' w = (Inr (Bool False), w')"
  using assms by (simp add: delete_def delete_catch_def get_prop_not_nullish)

text \<open>
  C4, where the code departs from it. First, a found document whose deletion the
  collaborator rejects with a 404 error: the promise of the collaborator's \<^verbatim>\<open>delete\<close>
  is returned from inside \<^verbatim>\<open>try\<close> without \<^verbatim>\<open>await\<close>, so the rejection never reaches
  the handler and \<^verbatim>\<open>delete\<close> rejects with the 404 error instead of giving \<^verbatim>\<open>false\<close>.
  Second, a lookup that fails with a transport error that has no \<^verbatim>\<open>response\<close>: the
  handler reads \<^verbatim>\<open>e.response.status\<close> unguarded, and \<^verbatim>\<open>delete\<close> rejects with a
  TypeError instead of the error itself.
\<close>

theorem delete_transport_errors:
  "delete test_store (Str ''urn:1'')
     (start [documents [Obj [(''id'', Str ''d1''), (''content'', Obj [(''id'', Str ''urn:1'')])]],
             Returns (Promise 2 (Inl (Obj [(''response'', Obj [(''status'', Num ''404'')])])))]) =
     (Inl (Obj [(''response'', Obj [(''status'', Num ''404'')])]),
      \<lparr>vault = [],
       calls = [Find_call (lookup_request test_store (Str ''urn:1'')),
                Delete_call (delete_request test_store
                  (Obj [(''id'', Str ''d1''), (''content'', Obj [(''id'', Str ''urn:1'')])]))]\<rparr>)
   \<and> fst (delete test_store (Str ''urn:1'')
        (start [Returns (Promise 1 (Inl (new_Error ''Error'' ''socket hang up'')))])) =
       Inl engine_TypeError
   \<and> engine_TypeError \<noteq> new_Error ''Error'' ''socket hang up''"
  by (simp add: delete_def call_find_def call_delete_def first_document_def delete_catch_def
      get_prop_def test_store_def scripted_def scripted_call_def start_def documents_def
      new_Error_def engine_TypeError_def)

section \<open>C5: an unsupported query type\<close>

text \<open>
  C5, amended. For every query object whose \<^verbatim>\<open>type\<close> is anything other than
  \<^verbatim>\<open>"QueryByExample"\<close> (for example \<^verbatim>\<open>"PresentationExchange"\<close>, or no type at all), no
  collaborator call is made (the sequence of calls and the vault are as they were) and
  \<^verbatim>\<open>match\<close> throws: when the type has a text, which every string has (itself), a
  generic \<^verbatim>\<open>Error\<close> (name \<^verbatim>\<open>Error\<close>) whose message is
  \<^verbatim>\<open>Unsupported query type: "<text>"\<close>; and when the type cannot be converted to text,
  the TypeError of that conversion.
\<close>

theorem match_unsupported_type:
  assumes "\<not> nullish query" and "type = prop_of query ''type''"
    and "type \<noteq> Str ''QueryByExample''"
  shows "(\<forall>text. to_string type = Inr text \<longrightarrow>
            match st query engine w =
              (Inl (new_Error ''Error''
                 (''Unsupported query type: '' @ dquote @ text @ dquote)), w))
       \<and> (\<forall>e. to_string type = Inl e \<longrightarrow> match st query engine w = (Inl e, w))
       \<and> (\<forall>s. type = Str s \<longrightarrow> to_string type = Inr s)
       \<and> calls (snd (match st query engine w)) = calls w
       \<and> vault (snd (match st query engine w)) = vault w"
  using assms by (auto simp: match_def get_prop_not_nullish split: sum.splits)

theorem match_unsupported_type_witness:
  "match test_store (Obj [(''type'', Str ''PresentationExchange'')]) None (start []) =
     (Inl (new_Error ''Error''
        (''Unsupported query type: '' @ dquote @ ''PresentationExchange'' @ dquote)), start [])
   \<and> calls (snd (match test_store (Obj [(''type'', Str ''PresentationExchange'')]) None (start [])))
       = []"
  using match_unsupported_type [of "Obj [(''type'', Str ''PresentationExchange'')]"
      "Str ''PresentationExchange''" test_store None "start []"]
  by (simp add: start_def)

text \<open>
  C5 as stated fails on the kind of the error: line 107 throws \<^verbatim>\<open>new Error(...)\<close> and
  sets no name, so the error a caller catches is named \<^verbatim>\<open>Error\<close>, not
  \<^verbatim>\<open>ConfigurationError\<close>.
\<close>

theorem match_unsupported_type_counterexample:
  "fst (match test_store (Obj [(''type'', Str ''PresentationExchange'')]) None (start [])) =
     Inl (new_Error ''Error''
        (''Unsupported query type: '' @ dquote @ ''PresentationExchange'' @ dquote))
   \<and> error_name (new_Error ''Error''
        (''Unsupported query type: '' @ dquote @ ''PresentationExchange'' @ dquote))
       \<noteq> Str ''ConfigurationError''"
  by (simp add: match_def get_prop_def error_name_new_Error)

section \<open>C6: a clause whose example has no type\<close>

text \<open>
  C6, amended. A clause whose example is an object with no \<^verbatim>\<open>type\<close> field is not
  rejected: the missing type is normalized to the one-element array
  \<^verbatim>\<open>[undefined]\<close>, so (the trusted-issuer entries being valid) the criteria are the
  single \<^verbatim>\<open>{type: undefined}\<close> when there is no issuer and one
  \<^verbatim>\<open>{type: undefined, issuer}\<close> per issuer otherwise, and \<^verbatim>\<open>find\<close> turns them into
  equality clauses that put no constraint on \<^verbatim>\<open>content.type\<close>: the empty clause, or
  one \<^verbatim>\<open>{meta.issuer}\<close> clause per issuer.
\<close>

theorem criteria_without_type:
  assumes "\<not> nullish clause" and "example = prop_of clause ''example''"
    and "\<not> nullish example" and "prop_of example ''type'' = Undefined"
    and "\<forall>e\<in>set (trusted_issuers clause). \<not> nullish e \<and> truthy (prop_of e ''id'')"
    and "issuers = map (\<lambda>e. prop_of e ''id'') (trusted_issuers clause)"
  shows "criteria clause =
           Inr (if issuers = [] then [Obj [(''type'', Undefined)]]
                else map (\<lambda>i. Obj [(''type'', Undefined), (''issuer'', i)]) issuers)
       \<and> build_equals
           (if issuers = [] then [Obj [(''type'', Undefined)]]
            else map (\<lambda>i. Obj [(''type'', Undefined), (''issuer'', i)]) issuers) [] =
           Inr (if issuers = [] then [Obj []]
                else map (\<lambda>i. Obj [(''meta.issuer'', i)]) issuers)"
proof -
  have "criteria clause =
           Inr (if issuers = [] then [Obj [(''type'', Undefined)]]
                else map (\<lambda>i. Obj [(''type'', Undefined), (''issuer'', i)]) issuers)"
    using assms
    by (simp add: criteria_def get_prop_not_nullish issuer_ids_valid push_types_append)
  moreover have "build_equals (map (\<lambda>i. Obj [(''type'', Undefined), (''issuer'', i)]) issuers) [] =
           Inr (map (\<lambda>i. Obj [(''meta.issuer'', i)]) issuers)"
    using assms(5,6) by (simp add: build_equals_map make_entry_def comp_def)
  moreover have "build_equals [Obj [(''type'', Undefined)]] [] = Inr [Obj []]"
    by (simp add: entry_of_def make_entry_def)
  ultimately show ?thesis by simp
qed

theorem criteria_without_type_witness:
  "criteria (Obj [(''example'', Obj [(''name'', Str ''n'')]),
                  (''trustedIssuer'', Obj [(''id'', Str ''x'')])]) =
     Inr [Obj [(''type'', Undefined), (''issuer'', Str ''x'')]]
   \<and> build_equals [Obj [(''type'', Undefined), (''issuer'', Str ''x'')]] [] =
       Inr [Obj [(''meta.issuer'', Str ''x'')]]"
  using criteria_without_type
    [of "Obj [(''example'', Obj [(''name'', Str ''n'')]), (''trustedIssuer'', Obj [(''id'', Str ''x'')])]"
        "Obj [(''name'', Str ''n'')]" "[Str ''x'']"]
  by (simp add: trusted_issuers_def)

text \<open>
  C6 as stated fails: no line of \<^verbatim>\<open>_query\<close> tests the type. With an example that has
  no type and no trusted issuer, the criteria are built, \<^verbatim>\<open>match\<close> sends the empty
  equality clause to the collaborator and returns what it answers.
\<close>

theorem criteria_without_type_counterexample:
  "criteria (Obj [(''example'', Obj [])]) = Inr [Obj [(''type'', Undefined)]]
   \<and> match test_store
       (Obj [(''type'', Str ''QueryByExample''), (''credentialQuery'', Obj [(''example'', Obj [])])])
       None
       (start [documents [Obj [(''id'', Str ''d1''), (''content'', Str ''c1''), (''meta'', Str ''m1'')]]]) =
       (Inr (Arr [Obj [(''content'', Str ''c1''), (''meta'', Str ''m1''), (''documentId'', Str ''d1'')]]),
        \<lparr>vault = [], calls = [Find_call (find_request test_store [Obj []])]\<rparr>)"
  by (simp add: match_def get_prop_def queryByExample_def query_clause_def criteria_def
      trusted_issuers_def find_vc_def entry_of_def make_entry_def call_find_def
      Promise_all_def test_store_def scripted_def scripted_call_def start_def documents_def
      find_result_def record_of_def concat_js_def)

section \<open>C7: a trusted issuer without an id\<close>

text \<open>
  C7, amended. Take a QueryByExample query whose clause at position \<open>i\<close> is the first
  one that fails validation, and fails because one of its trusted-issuer entries has a
  missing or falsy \<^verbatim>\<open>id\<close> (for example \<^verbatim>\<open>{name: "x"}\<close>), the entries before it being
  valid. Then \<^verbatim>\<open>match\<close> raises the error named \<^verbatim>\<open>NotSupportedError\<close>, at every position
  \<open>i\<close>. The offending clause sends nothing to the collaborator, and a query of a single
  clause makes no collaborator call at all. But \<^verbatim>\<open>_query\<close> runs on every clause before
  the promises are awaited together, so in a query of several clauses each clause that
  passes validation, before or after the offending one, has had its \<^verbatim>\<open>find\<close> request
  sent by the time the error is raised: the calls made are exactly those requests, in
  clause order.
\<close>

theorem match_not_supported:
  assumes "prop_of query ''type'' = Str ''QueryByExample''"
    and "credentialQuery = prop_of query ''credentialQuery''"
    and "truthy credentialQuery" and "typeof credentialQuery = ''object''"
    and "clauses = as_list credentialQuery"
    and "i < length clauses"
    and "\<forall>j<i. \<exists>q. criteria (clauses ! j) = Inr q"
    and "\<not> nullish (clauses ! i)" and "\<not> nullish (prop_of (clauses ! i) ''example'')"
    and "trusted_issuers (clauses ! i) = good @ bad # rest"
    and "\<forall>g\<in>set good. \<not> nullish g \<and> truthy (prop_of g ''id'')"
    and "\<not> nullish bad" and "\<not> truthy (prop_of bad ''id'')"
  shows "fst (match st query engine w) = Inl not_supported_error
       \<and> error_name not_supported_error = Str ''NotSupportedError''
       \<and> calls (snd (match st query engine w)) =
           calls w @ concat (map (\<lambda>c. case criteria c of
               Inl e \<Rightarrow> []
             | Inr q \<Rightarrow> [Find_call (find_request st
                 (map (\<lambda>s. make_entry (prop_of s ''type'') (prop_of s ''issuer'')
                              (prop_of s ''displayable'')) q))]) clauses)
       \<and> (length clauses = 1 \<longrightarrow> calls (snd (match st query engine w)) = calls w)"
proof -
  have bad: "criteria (clauses ! i) = Inl not_supported_error"
    using assms(8-13) by (rule criteria_offending)
  have rej: "first_rejected (fst (map_query st clauses w)) = Some (0, not_supported_error)"
    using assms(6) bad assms(7) by (rule map_query_first_rejected)
  have "query \<noteq> Undefined" "query \<noteq> Null"
    using assms(1) by auto
  then have nn: "\<not> nullish query"
    by (cases query) simp_all
  have m: "match st query engine w = (Inl not_supported_error, snd (map_query st clauses w))"
    using assms(1-5) nn rej
    by (simp add: match_def get_prop_not_nullish queryByExample_def Promise_all_def split_def)
  have sent: "calls (snd (match st query engine w)) =
           calls w @ concat (map (\<lambda>c. case criteria c of
               Inl e \<Rightarrow> []
             | Inr q \<Rightarrow> [Find_call (find_request st
                 (map (\<lambda>s. make_entry (prop_of s ''type'') (prop_of s ''issuer'')
                              (prop_of s ''displayable'')) q))]) clauses)"
    using m by (simp add: map_query_calls)
  have single: "calls (snd (match st query engine w)) = calls w" if "length clauses = 1"
  proof -
    from that assms(6) have "i = 0" by simp
    moreover from that obtain c where "clauses = [c]"
      by (cases clauses) simp_all
    ultimately show ?thesis
      using sent bad by simp
  qed
  show ?thesis
    using m sent single
    by (simp add: not_supported_error_def error_name_new_Error)
qed

theorem match_not_supported_witness:
  "fst (match test_store
     (Obj [(''type'', Str ''QueryByExample''),
           (''credentialQuery'', Arr
              [Obj [(''example'', Obj [(''type'', Str ''A'')])],
               Obj [(''example'', Obj [(''type'', Str ''B'')]),
                    (''trustedIssuer'', Arr [Obj [(''id'', Str ''x'')], Obj [(''name'', Str ''x'')]])]])])
     None (start [documents []])) = Inl not_supported_error
   \<and> calls (snd (match test_store
     (Obj [(''type'', Str ''QueryByExample''),
           (''credentialQuery'', Arr
              [Obj [(''example'', Obj [(''type'', Str ''A'')])],
               Obj [(''example'', Obj [(''type'', Str ''B'')]),
                    (''trustedIssuer'', Arr [Obj [(''id'', Str ''x'')], Obj [(''name'', Str ''x'')]])]])])
     None (start [documents []]))) =
       [Find_call (find_request test_store [Obj [(''content.type'', Str ''A'')]])]"
proof -
  let ?c0 = "Obj [(''example'', Obj [(''type'', Str ''A'')])]"
  let ?c1 = "Obj [(''example'', Obj [(''type'', Str ''B'')]),
                    (''trustedIssuer'', Arr [Obj [(''id'', Str ''x'')], Obj [(''name'', Str ''x'')]])]"
  let ?q = "Obj [(''type'', Str ''QueryByExample''), (''credentialQuery'', Arr [?c0, ?c1])]"
  have c0: "criteria ?c0 = Inr [Obj [(''type'', Str ''A'')]]"
    by (simp add: criteria_def get_prop_def trusted_issuers_def)
  have c1: "criteria ?c1 = Inl not_supported_error"
    by (simp add: criteria_def get_prop_def trusted_issuers_def issuer_id_def)
  have earlier: "\<forall>j<Suc 0. \<exists>q. criteria ([?c0, ?c1] ! j) = Inr q"
    using c0 by simp
  have ti: "trusted_issuers ([?c0, ?c1] ! Suc 0) = [Obj [(''id'', Str ''x'')]] @ Obj [(''name'', Str ''x'')] # []"
    by (simp add: trusted_issuers_def)
  show ?thesis
    using match_not_supported [of ?q "Arr [?c0, ?c1]" "[?c0, ?c1]" "Suc 0"
        "[Obj [(''id'', Str ''x'')]]" "Obj [(''name'', Str ''x'')]" "[]" test_store None
        "start [documents []]", OF _ _ _ _ _ _ earlier _ _ ti]
      c0 c1
    by (simp add: start_def make_entry_def)
qed

text \<open>
  C7 as stated fails on its last part. With two clauses, one valid and one with the
  entry \<^verbatim>\<open>{name: "x"}\<close>, the error is raised but the valid clause's request has been
  sent to the collaborator, whether the offending clause comes first or second. And
  an entry whose \<^verbatim>\<open>id\<close> is not a string but truthy, such as \<^verbatim>\<open>{id: 5}\<close>, is accepted.
\<close>

theorem match_not_supported_counterexample:
  "fst (match test_store
     (Obj [(''type'', Str ''QueryByExample''),
           (''credentialQuery'', Arr
              [Obj [(''example'', Obj [(''type'', Str ''A'')]),
                    (''trustedIssuer'', Obj [(''name'', Str ''x'')])],
               Obj [(''example'', Obj [(''type'', Str ''B'')])]])])
     None (start [documents []])) = Inl not_supported_error
   \<and> calls (snd (match test_store
     (Obj [(''type'', Str ''QueryByExample''),
           (''credentialQuery'', Arr
              [Obj [(''example'', Obj [(''type'', Str ''A'')]),
                    (''trustedIssuer'', Obj [(''name'', Str ''x'')])],
               Obj [(''example'', Obj [(''type'', Str ''B'')])]])])
     None (start [documents []]))) =
       [Find_call (find_request test_store [Obj [(''content.type'', Str ''B'')]])]
   \<and> fst (match test_store
     (Obj [(''type'', Str ''QueryByExample''),
           (''credentialQuery'', Arr
              [Obj [(''example'', Obj [(''type'', Str ''A'')])],
               Obj [(''example'', Obj [(''type'', Str ''B'')]),
                    (''trustedIssuer'', Obj [(''name'', Str ''x'')])]])])
     None (start [documents []])) = Inl not_supported_error
   \<and> calls (snd (match test_store
     (Obj [(''type'', Str ''QueryByExample''),
           (''credentialQuery'', Arr
              [Obj [(''example'', Obj [(''type'', Str ''A'')])],
               Obj [(''example'', Obj [(''type'', Str ''B'')]),
                    (''trustedIssuer'', Obj [(''name'', Str ''x'')])]])])
     None (start [documents []]))) =
       [Find_call (find_request test_store [Obj [(''content.type'', Str ''A'')]])]
   \<and> criteria (Obj [(''example'', Obj [(''type'', Str ''A'')]),
                    (''trustedIssuer'', Obj [(''id'', Num ''5'')])]) =
       Inr [Obj [(''type'', Str ''A''), (''issuer'', Num ''5'')]]"
  by (simp add: match_def get_prop_def queryByExample_def query_clause_def criteria_def
      trusted_issuers_def issuer_id_def find_vc_def entry_of_def make_entry_def call_find_def
      Promise_all_def test_store_def scripted_def scripted_call_def start_def documents_def
      find_result_def)

section \<open>C8: \<^verbatim>\<open>get\<close>\<close>

text \<open>
  C8, where the code departs from it. The name \<^verbatim>\<open>id\<close> is bound by the parameter
  list of \<^verbatim>\<open>get\<close> and declared again by the \<^verbatim>\<open>const\<close> of line 44, which the language
  rejects before anything runs: \<^verbatim>\<open>get\<close> returns no record for any id.
\<close>

theorem get_redeclares_id:
  "redeclared get_parameter_names get_lexically_declared_names = [''id'']"
  by (simp add: redeclared_def get_parameter_names_def get_lexically_declared_names_def)

text \<open>
  With the clash taken away the body does what C8 says: it looks up by
  \<^verbatim>\<open>content.id\<close>, throws the error named \<^verbatim>\<open>NotFoundError\<close> when the collaborator
  answers with no document, and otherwise returns the record of the first document.
\<close>

lemma get_body_lookup:
  assumes "call_find st (lookup_request st id') w = (r, w')"
    and "await_reply r = Inr res"
  shows "(prop_of res ''documents'' = Arr [] \<longrightarrow>
            get_body st id' w = (Inl not_found_error, w'))
       \<and> (\<forall>doc others. prop_of res ''documents'' = Arr (doc # others) \<and> truthy doc \<longrightarrow>
            get_body st id' w =
              (Inr (Obj [(''content'', prop_of doc ''content''), (''meta'', prop_of doc ''meta''),
                         (''documentId'', prop_of doc ''id'')]), w'))
       \<and> error_name not_found_error = Str ''NotFoundError''
       \<and> prop_of (prop_of (lookup_request st id') ''equals'') ''content.id'' = id'"
proof -
  have nn: "\<not> nullish res" if "prop_of res ''documents'' = Arr ds" for ds
    using that by (cases res) simp_all
  have a: "get_body st id' w = (Inl not_found_error, w')" if "prop_of res ''documents'' = Arr []"
    using assms that nn [OF that]
    by (simp add: get_body_def first_document_def get_prop_not_nullish)
  have b: "get_body st id' w =
              (Inr (Obj [(''content'', prop_of doc ''content''), (''meta'', prop_of doc ''meta''),
                         (''documentId'', prop_of doc ''id'')]), w')"
    if "prop_of res ''documents'' = Arr (doc # others)" "truthy doc" for doc others
    using assms that nn [OF that(1)] truthy_not_nullish [OF that(2)]
    by (simp add: get_body_def first_document_def get_prop_not_nullish record_of_def)
  show ?thesis
    using a b by (simp add: not_found_error_def error_name_new_Error lookup_request_def)
qed

section \<open>C9: \<^verbatim>\<open>insert\<close>\<close>

text \<open>
  C9. For a credential the validator accepts, with canonical issuer \<open>issuer\<close>, and any
  meta object (or none): \<^verbatim>\<open>insert\<close> makes exactly one collaborator call, an insert whose
  document has \<^verbatim>\<open>meta.issuer\<close> equal to \<open>issuer\<close> whatever the caller's meta held
  there, every other meta property as the caller gave it, the credential as content
  and the caller's \<^verbatim>\<open>docId\<close> as id. When the collaborator answers with a document,
  the value returned has that document's content and its id as \<^verbatim>\<open>documentId\<close>, and no
  \<^verbatim>\<open>meta\<close> property.
\<close>

theorem insert_vc_sets_issuer:
  assumes "getIssuer credential = Inr issuer"
    and "given = (case meta of None \<Rightarrow> [] | Some m \<Rightarrow> m)"
    and "request = insert_request st docId (set_prop given ''issuer'' issuer) credential"
  shows "prop_of (prop_of (prop_of request ''doc'') ''meta'') ''issuer'' = issuer
       \<and> (\<forall>k. k \<noteq> ''issuer'' \<longrightarrow>
             prop_of (prop_of (prop_of request ''doc'') ''meta'') k = prop_of (Obj given) k)
       \<and> prop_of (prop_of request ''doc'') ''content'' = credential
       \<and> prop_of (prop_of request ''doc'') ''id'' = docId
       \<and> calls (snd (insert_vc st credential meta docId w)) = calls w @ [Insert_call request]
       \<and> (\<forall>t doc s'.
             edv_insert (edvClient st) request (vault w) = (Returns (Promise t (Inr doc)), s')
             \<and> \<not> nullish doc \<longrightarrow>
             insert_vc st credential meta docId w =
               (Inr (Obj [(''content'', prop_of doc ''content''),
                          (''documentId'', prop_of doc ''id'')]),
                \<lparr>vault = s', calls = calls w @ [Insert_call request]\<rparr>)
             \<and> prop_of (Obj [(''content'', prop_of doc ''content''),
                             (''documentId'', prop_of doc ''id'')]) ''meta'' = Undefined)"
proof -
  have sent: "calls (snd (insert_vc st credential meta docId w)) = calls w @ [Insert_call request]"
    using assms
    by (simp add: insert_vc_def call_insert_def split: prod.splits sum.splits)
  have req: "prop_of (prop_of (prop_of request ''doc'') ''meta'') ''issuer'' = issuer
       \<and> (\<forall>k. k \<noteq> ''issuer'' \<longrightarrow>
             prop_of (prop_of (prop_of request ''doc'') ''meta'') k = prop_of (Obj given) k)
       \<and> prop_of (prop_of request ''doc'') ''content'' = credential
       \<and> prop_of (prop_of request ''doc'') ''id'' = docId"
    using assms(3)
    by (simp add: insert_request_def map_of_set_prop_same map_of_set_prop_other)
  have ret: "insert_vc st credential meta docId w =
               (Inr (Obj [(''content'', prop_of doc ''content''),
                          (''documentId'', prop_of doc ''id'')]),
                \<lparr>vault = s', calls = calls w @ [Insert_call request]\<rparr>)"
    if "edv_insert (edvClient st) request (vault w) = (Returns (Promise t (Inr doc)), s')"
      and "\<not> nullish doc" for t doc s'
    using assms that
    by (simp add: insert_vc_def call_insert_def get_prop_not_nullish)
  show ?thesis
    using sent req ret by simp
qed

theorem insert_vc_sets_issuer_witness:
  "insert_vc test_store
     (Obj [(''id'', Str ''urn:1''), (''issuer'', Obj [(''id'', Str ''did:x'')])])
     (Some [(''issuer'', Str ''other''), (''displayable'', Bool True)])
     (Str ''z1'')
     (start [Returns (Promise 1 (Inr (Obj
        [(''id'', Str ''z1''), (''sequence'', Num ''0''),
         (''content'', Obj [(''id'', Str ''urn:1''), (''issuer'', Obj [(''id'', Str ''did:x'')])]),
         (''meta'', Obj [(''issuer'', Str ''did:x''), (''displayable'', Bool True)])])))]) =
   (Inr (Obj [(''content'', Obj [(''id'', Str ''urn:1''), (''issuer'', Obj [(''id'', Str ''did:x'')])]),
              (''documentId'', Str ''z1'')]),
    \<lparr>vault = [],
     calls = [Insert_call (Obj
       [(''doc'', Obj
          [(''id'', Str ''z1''),
           (''meta'', Obj [(''issuer'', Str ''did:x''), (''displayable'', Bool True)]),
           (''content'', Obj [(''id'', Str ''urn:1''), (''issuer'', Obj [(''id'', Str ''did:x'')])])]),
        (''invocationSigner'', Str ''signer'')])]\<rparr>)"
  using insert_vc_sets_issuer
    [of "Obj [(''id'', Str ''urn:1''), (''issuer'', Obj [(''id'', Str ''did:x'')])]"
        "Str ''did:x''"
        "[(''issuer'', Str ''other''), (''displayable'', Bool True)]"
        "Some [(''issuer'', Str ''other''), (''displayable'', Bool True)]"
        "insert_request test_store (Str ''z1'')
           (set_prop [(''issuer'', Str ''other''), (''displayable'', Bool True)] ''issuer''
              (Str ''did:x''))
           (Obj [(''id'', Str ''urn:1''), (''issuer'', Obj [(''id'', Str ''did:x'')])])"
        test_store "Str ''z1''"
        "start [Returns (Promise 1 (Inr (Obj
           [(''id'', Str ''z1''), (''sequence'', Num ''0''),
            (''content'', Obj [(''id'', Str ''urn:1''), (''issuer'', Obj [(''id'', Str ''did:x'')])]),
            (''meta'', Obj [(''issuer'', Str ''did:x''), (''displayable'', Bool True)])])))]"]
  by (simp add: getIssuer_def get_prop_def insert_request_def test_store_def scripted_def
      scripted_call_def start_def)

section \<open>C10: the handler of \<^verbatim>\<open>delete\<close>\<close>

text \<open>
  C10, amended. For every error \<open>e\<close> whose \<^verbatim>\<open>response\<close> is \<^verbatim>\<open>undefined\<close> or
  \<^verbatim>\<open>null\<close> (a plain network or validation error; also a thrown \<^verbatim>\<open>undefined\<close> or
  \<^verbatim>\<open>null\<close>): the handler of \<^verbatim>\<open>delete\<close> reads \<^verbatim>\<open>e.response.status\<close> unguarded and
  throws a TypeError, so when \<open>e\<close> is raised by the awaited lookup, or thrown
  synchronously by the collaborator's \<^verbatim>\<open>delete\<close> call, \<^verbatim>\<open>delete\<close> rejects with that
  TypeError and \<open>e\<close> is lost. Every error \<open>x\<close> whose \<^verbatim>\<open>response\<close> is neither
  \<^verbatim>\<open>undefined\<close> nor \<^verbatim>\<open>null\<close> and whose \<^verbatim>\<open>response.status\<close> is not 404, in
  particular one whose \<^verbatim>\<open>response\<close> is an object without a \<^verbatim>\<open>status\<close> field, is
  re-raised unchanged by the handler, from the lookup and from a synchronous throw of
  the collaborator's \<^verbatim>\<open>delete\<close> alike. And the handler does not see every error: the
  promise of the collaborator's \<^verbatim>\<open>delete\<close> is returned without \<^verbatim>\<open>await\<close>, so
  whatever it is rejected with is passed on unchanged.
\<close>

theorem delete_catch_replaces_error:
  assumes "nullish e \<or> nullish (prop_of e ''response'')"
  shows "delete_catch e = Inl engine_TypeError
       \<and> error_name engine_TypeError = Str ''TypeError''
       \<and> (\<forall>r w'. call_find st (lookup_request st id') w = (r, w') \<and> await_reply r = Inl e \<longrightarrow>
             delete st id' w = (Inl engine_TypeError, w'))
       \<and> (\<forall>r w' res doc w''.
             call_find st (lookup_request st id') w = (r, w') \<and> await_reply r = Inr res
             \<and> first_document res = Inr doc \<and> truthy doc
             \<and> call_delete st (delete_request st doc) w' = (Throws e, w'') \<longrightarrow>
             delete st id' w = (Inl engine_TypeError, w''))
       \<and> (\<forall>x. \<not> nullish x \<and> \<not> nullish (prop_of x ''response'')
               \<and> prop_of (prop_of x ''response'') ''status'' \<noteq> Num ''404'' \<longrightarrow>
             delete_catch x = Inl x
             \<and> (\<forall>r w'. call_find st (lookup_request st id') w = (r, w')
                    \<and> await_reply r = Inl x \<longrightarrow>
                  delete st id' w = (Inl x, w'))
             \<and> (\<forall>r w' res doc w''.
                  call_find st (lookup_request st id') w = (r, w') \<and> await_reply r = Inr res
                  \<and> first_document res = Inr doc \<and> truthy doc
                  \<and> call_delete st (delete_request st doc) w' = (Throws x, w'') \<longrightarrow>
                  delete st id' w = (Inl x, w'')))
       \<and> (\<forall>kvs fields. map_of kvs ''response'' = Some (Obj fields)
               \<and> map_of fields ''status'' = None \<longrightarrow>
             delete_catch (Obj kvs) = Inl (Obj kvs))
       \<and> (\<forall>r w' res doc w'' t x.
             call_find st (lookup_request st id') w = (r, w') \<and> await_reply r = Inr res
             \<and> first_document res = Inr doc \<and> truthy doc
             \<and> call_delete st (delete_request st doc) w' = (Returns (Promise t (Inl x)), w'') \<longrightarrow>
             delete st id' w = (Inl x, w''))"
proof -
  have h: "delete_catch e = Inl engine_TypeError"
    using assms by (auto simp: delete_catch_def get_prop_def)
  have n: "error_name engine_TypeError = Str ''TypeError''"
    by (simp add: engine_TypeError_def error_name_new_Error)
  have a: "delete st id' w = (Inl engine_TypeError, w')"
    if "call_find st (lookup_request st id') w = (r, w')" "await_reply r = Inl e" for r w'
    using that h by (simp add: delete_def)
  have b: "delete st id' w = (Inl engine_TypeError, w'')"
    if "call_find st (lookup_request st id') w = (r, w')" "await_reply r = Inr res"
      "first_document res = Inr doc" "truthy doc"
      "call_delete st (delete_request st doc) w' = (Throws e, w'')" for r w' res doc w''
    using that h by (simp add: delete_def)
  have k: "delete_catch x = Inl x"
    if "\<not> nullish x" "\<not> nullish (prop_of x ''response'')"
      "prop_of (prop_of x ''response'') ''status'' \<noteq> Num ''404''" for x
    using that by (simp add: delete_catch_def get_prop_not_nullish)
  have ka: "delete st id' w = (Inl x, w')"
    if "delete_catch x = Inl x"
      "call_find st (lookup_request st id') w = (r, w')" "await_reply r = Inl x" for x r w'
    using that by (simp add: delete_def)
  have kb: "delete st id' w = (Inl x, w'')"
    if "delete_catch x = Inl x"
      "call_find st (lookup_request st id') w = (r, w')" "await_reply r = Inr res"
      "first_document res = Inr doc" "truthy doc"
      "call_delete st (delete_request st doc) w' = (Throws x, w'')" for x r w' res doc w''
    using that by (simp add: delete_def)
  have o: "delete_catch (Obj kvs) = Inl (Obj kvs)"
    if "map_of kvs ''response'' = Some (Obj fields)" "map_of fields ''status'' = None"
    for kvs fields
    using that by (simp add: delete_catch_def get_prop_def)
  have c: "delete st id' w = (Inl x, w'')"
    if "call_find st (lookup_request st id') w = (r, w')" "await_reply r = Inr res"
      "first_document res = Inr doc" "truthy doc"
      "call_delete st (delete_request st doc) w' = (Returns (Promise t (Inl x)), w'')"
    for r w' res doc w'' t x
    using that by (simp add: delete_def)
  have kall: "delete_catch x = Inl x
             \<and> (\<forall>r w'. call_find st (lookup_request st id') w = (r, w')
                    \<and> await_reply r = Inl x \<longrightarrow>
                  delete st id' w = (Inl x, w'))
             \<and> (\<forall>r w' res doc w''.
                  call_find st (lookup_request st id') w = (r, w') \<and> await_reply r = Inr res
                  \<and> first_document res = Inr doc \<and> truthy doc
                  \<and> call_delete st (delete_request st doc) w' = (Throws x, w'') \<longrightarrow>
                  delete st id' w = (Inl x, w''))"
    if "\<not> nullish x" "\<not> nullish (prop_of x ''response'')"
      "prop_of (prop_of x ''response'') ''status'' \<noteq> Num ''404''" for x
    using k [OF that] ka kb by blast
  have p1: "\<forall>r w'. call_find st (lookup_request st id') w = (r, w') \<and> await_reply r = Inl e \<longrightarrow>
             delete st id' w = (Inl engine_TypeError, w')"
    using a by blast
  have p2: "\<forall>r w' res doc w''.
             call_find st (lookup_request st id') w = (r, w') \<and> await_reply r = Inr res
             \<and> first_document res = Inr doc \<and> truthy doc
             \<and> call_delete st (delete_request st doc) w' = (Throws e, w'') \<longrightarrow>
             delete st id' w = (Inl engine_TypeError, w'')"
    using b by blast
  have p3: "\<forall>x. \<not> nullish x \<and> \<not> nullish (prop_of x ''response'')
               \<and> prop_of (prop_of x ''response'') ''status'' \<noteq> Num ''404'' \<longrightarrow>
             delete_catch x = Inl x
             \<and> (\<forall>r w'. call_find st (lookup_request st id') w = (r, w')
                    \<and> await_reply r = Inl x \<longrightarrow>
                  delete st id' w = (Inl x, w'))
             \<and> (\<forall>r w' res doc w''.
                  call_find st (lookup_request st id') w = (r, w') \<and> await_reply r = Inr res
                  \<and> first_document res = Inr doc \<and> truthy doc
                  \<and> call_delete st (delete_request st doc) w' = (Throws x, w'') \<longrightarrow>
                  delete st id' w = (Inl x, w''))"
    using kall by blast
  have p4: "\<forall>kvs fields. map_of kvs ''response'' = Some (Obj fields)
               \<and> map_of fields ''status'' = None \<longrightarrow>
             delete_catch (Obj kvs) = Inl (Obj kvs)"
    using o by blast
  have p5: "\<forall>r w' res doc w'' t x.
             call_find st (lookup_request st id') w = (r, w') \<and> await_reply r = Inr res
             \<and> first_document res = Inr doc \<and> truthy doc
             \<and> call_delete st (delete_request st doc) w' = (Returns (Promise t (Inl x)), w'') \<longrightarrow>
             delete st id' w = (Inl x, w'')"
    using c by blast
  show ?thesis
    using h n p1 p2 p3 p4 p5 by (intro conjI)
qed

theorem delete_catch_replaces_error_witness:
  "delete_catch (new_Error ''Error'' ''socket hang up'') = Inl engine_TypeError
   \<and> delete test_store (Str ''urn:1'')
       (start [Returns (Promise 1 (Inl (new_Error ''Error'' ''socket hang up'')))]) =
       (Inl engine_TypeError,
        \<lparr>vault = [], calls = [Find_call (lookup_request test_store (Str ''urn:1''))]\<rparr>)
   \<and> delete_catch (Obj [(''response'', Obj [(''statusText'', Str ''Bad Gateway'')])]) =
       Inl (Obj [(''response'', Obj [(''statusText'', Str ''Bad Gateway'')])])
   \<and> delete test_store (Str ''urn:1'')
       (start [Returns (Promise 1 (Inl (Obj [(''response'', Obj [(''status'', Num ''500'')])])))]) =
       (Inl (Obj [(''response'', Obj [(''status'', Num ''500'')])]),
        \<lparr>vault = [], calls = [Find_call (lookup_request test_store (Str ''urn:1''))]\<rparr>)"
  using delete_catch_replaces_error
    [of "new_Error ''Error'' ''socket hang up''" test_store "Str ''urn:1''"
        "start [Returns (Promise 1 (Inl (new_Error ''Error'' ''socket hang up'')))]"]
    delete_catch_replaces_error
    [of "new_Error ''Error'' ''socket hang up''" test_store "Str ''urn:1''"
        "start [Returns (Promise 1 (Inl (Obj [(''response'', Obj [(''status'', Num ''500'')])])))]"]
  by (simp add: new_Error_def call_find_def test_store_def scripted_def scripted_call_def
      start_def)

text \<open>
  C10 as stated fails twice. An error whose \<^verbatim>\<open>response\<close> is an object without a
  \<^verbatim>\<open>status\<close> carries no status either, yet reading \<^verbatim>\<open>e.response.status\<close> gives
  \<^verbatim>\<open>undefined\<close> without throwing, and the error is re-thrown as it is. And a plain
  error with which the collaborator rejects the deletion itself never reaches the
  handler: \<^verbatim>\<open>delete\<close> rejects with that very error.
\<close>

theorem delete_catch_counterexample:
  "fst (delete test_store (Str ''urn:1'')
     (start [Returns (Promise 1 (Inl (Obj [(''response'', Obj [])])))])) =
     Inl (Obj [(''response'', Obj [])])
   \<and> Obj [(''response'', Obj [])] \<noteq> engine_TypeError
   \<and> fst (delete test_store (Str ''urn:1'')
        (start [documents [Obj [(''id'', Str ''d1''), (''content'', Obj [(''id'', Str ''urn:1'')])]],
                Returns (Promise 2 (Inl (new_Error ''Error'' ''socket hang up'')))])) =
       Inl (new_Error ''Error'' ''socket hang up'')
   \<and> new_Error ''Error'' ''socket hang up'' \<noteq> engine_TypeError"
  by (simp add: delete_def call_find_def call_delete_def first_document_def delete_catch_def
      get_prop_def test_store_def scripted_def scripted_call_def start_def documents_def
      new_Error_def engine_TypeError_def)

end
